theory Spec2Isabelle
  imports Main "HOL-Library.Sublist"
begin


section \<open>Engine and main-loop objects\<close>

text \<open>
  The streamer drives two external libraries: the media engine (elements, pads, links,
  element states) and the GLib main loop (event sources with numeric ids). Both are
  modelled as explicit state. A pointer to an element is an \<open>elem option\<close>
  (\<open>None\<close> is \<open>nullptr\<close>), a pointer to a pad a \<open>pad option\<close>. Elements are
  numbered in the order of their creation. Whether an engine call succeeds is not decided
  by the streamer: every fallible call takes its outcome as a parameter.
\<close>

type_synonym elem = nat

datatype pad =
    StaticPad elem string
  | RequestPad elem string nat
  | StreamPad elem nat

datatype gst_state =
    GST_STATE_VOID_PENDING
  | GST_STATE_NULL
  | GST_STATE_READY
  | GST_STATE_PAUSED
  | GST_STATE_PLAYING

text \<open>The numeric values of the C enumeration, used by \<open>new_state < GST_STATE_PLAYING\<close>.\<close>

fun state_value :: "gst_state \<Rightarrow> nat" where
  "state_value GST_STATE_VOID_PENDING = 0"
| "state_value GST_STATE_NULL = 1"
| "state_value GST_STATE_READY = 2"
| "state_value GST_STATE_PAUSED = 3"
| "state_value GST_STATE_PLAYING = 4"

datatype state_change_return =
    GST_STATE_CHANGE_FAILURE
  | GST_STATE_CHANGE_SUCCESS
  | GST_STATE_CHANGE_ASYNC
  | GST_STATE_CHANGE_NO_PREROLL

datatype gfield = FString string | FInt int | FFraction int int

text \<open>A caps value is represented by its first structure: a name and its fields.\<close>

type_synonym gst_structure = "string \<times> (string \<times> gfield) list"

datatype gvalue =
    VString string
  | VInt int
  | VBool bool
  | VUInt64 nat
  | VPad pad
  | VCaps gst_structure

text \<open>The callbacks the streamer registers with the main loop.\<close>

datatype callback = Reconnect_rtsp_source | Switch_to_rtsp_delayed

datatype source = BusWatch | Timeout nat callback

text \<open>The log of engine and main-loop calls, in the order they are issued.\<close>

datatype call =
    PipelineNew string "elem option"
  | FactoryMake string "string option" "elem option"
  | BinAdd "elem option" "elem list"
  | ElementLink "elem list" bool
  | GetStaticPad elem string "pad option"
  | GetRequestPad "elem option" string "pad option"
  | PadLink "pad option" "pad option" bool
  | SyncStateWithParent elem
  | SetState "elem option" gst_state
  | GetState elem state_change_return
  | GetBus elem
  | SignalConnect "elem option" string
  | ObjectUnref elem
  | BusUnref
  | MainLoopNew
  | MainLoopRun
  | MainLoopQuit
  | MainLoopUnref
  | SourceAdd nat source
  | SourceRemove nat

section \<open>The streamer\<close>

text \<open>
  The fields of class \<open>RTSPDashStreamer\<close>, followed by the state of the engine and of
  the main loop that the class reads and writes through library calls.
\<close>

record streamer =
  pipeline :: "elem option"
  rtsp_src :: "elem option"
  dummy_src :: "elem option"
  input_selector :: "elem option"
  tee :: "elem option"
  dash_sink_fullhd :: "elem option"
  dash_sink_hd :: "elem option"
  bus :: bool
  loop :: bool
  bus_watch_id :: nat
  reconnect_timeout_id :: nat
  rtsp_uri :: string
  output_path :: string
  is_rtsp_connected :: bool
  tee_linked :: bool
  next_elem :: nat
  next_pad :: nat
  props :: "elem \<times> string \<Rightarrow> gvalue option"
  object_data :: "elem \<times> string \<Rightarrow> pad option"
  sources :: "(nat \<times> source) list"
  next_source :: nat
  loop_is_running :: bool
  calls :: "call list"

text \<open>The constructor: every pointer null, both ids 0, no engine object yet.\<close>

definition RTSPDashStreamer :: "string \<Rightarrow> string \<Rightarrow> streamer" where
  "RTSPDashStreamer uri output =
     \<lparr> pipeline = None, rtsp_src = None, dummy_src = None, input_selector = None,
       tee = None, dash_sink_fullhd = None, dash_sink_hd = None, bus = False, loop = False,
       bus_watch_id = 0, reconnect_timeout_id = 0, rtsp_uri = uri, output_path = output,
       is_rtsp_connected = False, tee_linked = False,
       next_elem = 1, next_pad = 0, props = (\<lambda>_. None),
       object_data = (\<lambda>_. None), sources = [], next_source = 1,
       loop_is_running = False, calls = [] \<rparr>"

subsection \<open>Library calls\<close>

definition record_call :: "call \<Rightarrow> streamer \<Rightarrow> streamer" where
  "record_call c s = s\<lparr>calls := calls s @ [c]\<rparr>"

definition gst_pipeline_new :: "bool \<Rightarrow> string \<Rightarrow> streamer \<Rightarrow> elem option \<times> streamer" where
  "gst_pipeline_new ok name s =
     (if ok
      then (Some (next_elem s),
            record_call (PipelineNew name (Some (next_elem s)))
              (s\<lparr>next_elem := next_elem s + 1\<rparr>))
      else (None, record_call (PipelineNew name None) s))"

definition gst_element_factory_make ::
  "bool \<Rightarrow> string \<Rightarrow> string option \<Rightarrow> streamer \<Rightarrow> elem option \<times> streamer" where
  "gst_element_factory_make ok factory name s =
     (if ok
      then (Some (next_elem s),
            record_call (FactoryMake factory name (Some (next_elem s)))
              (s\<lparr>next_elem := next_elem s + 1\<rparr>))
      else (None, record_call (FactoryMake factory name None) s))"

definition g_object_set :: "elem \<Rightarrow> string \<Rightarrow> gvalue \<Rightarrow> streamer \<Rightarrow> streamer" where
  "g_object_set e key v s = s\<lparr>props := (props s)((e, key) := Some v)\<rparr>"

definition g_object_set_data :: "elem \<Rightarrow> string \<Rightarrow> pad option \<Rightarrow> streamer \<Rightarrow> streamer" where
  "g_object_set_data e key p s = s\<lparr>object_data := (object_data s)((e, key) := p)\<rparr>"

text \<open>\<open>g_object_get_data\<close> on a null object returns null.\<close>

definition g_object_get_data :: "elem option \<Rightarrow> string \<Rightarrow> streamer \<Rightarrow> pad option" where
  "g_object_get_data e key s = (case e of None \<Rightarrow> None | Some x \<Rightarrow> object_data s (x, key))"

definition gst_element_link_many :: "bool \<Rightarrow> elem list \<Rightarrow> streamer \<Rightarrow> bool \<times> streamer" where
  "gst_element_link_many ok es s = (ok, record_call (ElementLink es ok) s)"

definition gst_element_get_static_pad ::
  "bool \<Rightarrow> elem \<Rightarrow> string \<Rightarrow> streamer \<Rightarrow> pad option \<times> streamer" where
  "gst_element_get_static_pad ok e name s =
     (let p = (if ok then Some (StaticPad e name) else None)
      in (p, record_call (GetStaticPad e name p) s))"

text \<open>A request pad is a new pad of the element; a request on a null element fails.\<close>

definition gst_element_get_request_pad ::
  "bool \<Rightarrow> elem option \<Rightarrow> string \<Rightarrow> streamer \<Rightarrow> pad option \<times> streamer" where
  "gst_element_get_request_pad ok e name s =
     (case e of
        None \<Rightarrow> (None, record_call (GetRequestPad e name None) s)
      | Some x \<Rightarrow>
          if ok
          then (Some (RequestPad x name (next_pad s)),
                record_call (GetRequestPad e name (Some (RequestPad x name (next_pad s))))
                  (s\<lparr>next_pad := next_pad s + 1\<rparr>))
          else (None, record_call (GetRequestPad e name None) s))"

text \<open>Linking refuses a null pad, whatever the engine would otherwise answer.\<close>

definition gst_pad_link ::
  "bool \<Rightarrow> pad option \<Rightarrow> pad option \<Rightarrow> streamer \<Rightarrow> bool \<times> streamer" where
  "gst_pad_link ok src snk s =
     (let r = (ok \<and> src \<noteq> None \<and> snk \<noteq> None)
      in (r, record_call (PadLink src snk r) s))"

text \<open>
  \<open>g_timeout_add_seconds\<close> and \<open>gst_bus_add_watch\<close> attach a source to the main
  context and return its id, which is greater than 0 and differs from every id in use.
\<close>

definition g_source_attach :: "source \<Rightarrow> streamer \<Rightarrow> nat \<times> streamer" where
  "g_source_attach src s =
     (next_source s,
      record_call (SourceAdd (next_source s) src)
        (s\<lparr>sources := sources s @ [(next_source s, src)],
           next_source := next_source s + 1\<rparr>))"

definition g_timeout_add_seconds :: "nat \<Rightarrow> callback \<Rightarrow> streamer \<Rightarrow> nat \<times> streamer" where
  "g_timeout_add_seconds interval cb s = g_source_attach (Timeout interval cb) s"

definition g_source_remove :: "nat \<Rightarrow> streamer \<Rightarrow> streamer" where
  "g_source_remove i s =
     record_call (SourceRemove i) (s\<lparr>sources := filter (\<lambda>(j, _). j \<noteq> i) (sources s)\<rparr>)"

definition gst_element_sync_state_with_parent :: "elem \<Rightarrow> streamer \<Rightarrow> streamer" where
  "gst_element_sync_state_with_parent e s = record_call (SyncStateWithParent e) s"

definition gst_element_set_state :: "elem option \<Rightarrow> gst_state \<Rightarrow> streamer \<Rightarrow> streamer" where
  "gst_element_set_state e st s = record_call (SetState e st) s"

text \<open>Several properties set by one \<open>g_object_set\<close> call, in the order of the call.\<close>

fun g_object_set_many :: "elem \<Rightarrow> (string \<times> gvalue) list \<Rightarrow> streamer \<Rightarrow> streamer" where
  "g_object_set_many e [] s = s"
| "g_object_set_many e ((k, v) # kvs) s = g_object_set_many e kvs (g_object_set e k v s)"

definition video_raw_caps :: "int \<Rightarrow> int \<Rightarrow> gst_structure" where
  "video_raw_caps width height =
     (''video/x-raw'',
      [(''format'', FString ''I420''), (''width'', FInt width), (''height'', FInt height),
       (''framerate'', FFraction 25 1)])"

subsection \<open>Switching the selector\<close>

definition switch_to_dummy_source :: "streamer \<Rightarrow> streamer" where
  "switch_to_dummy_source s =
     (case g_object_get_data (input_selector s) ''dummy-pad'' s of
        None \<Rightarrow> s
      | Some dummy_pad \<Rightarrow>
          (case input_selector s of
             None \<Rightarrow> s
           | Some sel \<Rightarrow> g_object_set sel ''active-pad'' (VPad dummy_pad) s))"

definition switch_to_rtsp_source :: "streamer \<Rightarrow> streamer" where
  "switch_to_rtsp_source s =
     (case g_object_get_data (input_selector s) ''rtsp-pad'' s of
        None \<Rightarrow> s
      | Some rtsp_pad \<Rightarrow>
          (case input_selector s of
             None \<Rightarrow> s
           | Some sel \<Rightarrow> g_object_set sel ''active-pad'' (VPad rtsp_pad) s))"

text \<open>The timer callback returns \<open>FALSE\<close>: the main loop removes its source (see \<open>fire\<close>).\<close>

definition switch_to_rtsp_delayed :: "streamer \<Rightarrow> bool \<times> streamer" where
  "switch_to_rtsp_delayed s = (False, switch_to_rtsp_source s)"

subsection \<open>The reconnect timer\<close>

definition schedule_rtsp_reconnect :: "streamer \<Rightarrow> streamer" where
  "schedule_rtsp_reconnect s =
     (let s1 = (if reconnect_timeout_id s > 0 then g_source_remove (reconnect_timeout_id s) s
                else s);
          (i, s2) = g_timeout_add_seconds 5 Reconnect_rtsp_source s1
      in s2\<lparr>reconnect_timeout_id := i\<rparr>)"

definition reconnect_rtsp_source :: "streamer \<Rightarrow> bool \<times> streamer" where
  "reconnect_rtsp_source s =
     (let s1 = gst_element_set_state (rtsp_src s) GST_STATE_NULL s;
          s2 = gst_element_set_state (rtsp_src s1) GST_STATE_PLAYING s1
      in (False, s2\<lparr>reconnect_timeout_id := 0\<rparr>))"

subsection \<open>Stopping and cleaning up\<close>

definition g_main_loop_quit :: "streamer \<Rightarrow> streamer" where
  "g_main_loop_quit s = record_call MainLoopQuit (s\<lparr>loop_is_running := False\<rparr>)"

definition stop :: "streamer \<Rightarrow> streamer" where
  "stop s = (if loop s then g_main_loop_quit s else s)"

definition cleanup :: "streamer \<Rightarrow> streamer" where
  "cleanup s0 =
     (let s1 = (if reconnect_timeout_id s0 > 0
                then (g_source_remove (reconnect_timeout_id s0) s0)\<lparr>reconnect_timeout_id := 0\<rparr>
                else s0);
          s2 = (if bus_watch_id s1 > 0
                then (g_source_remove (bus_watch_id s1) s1)\<lparr>bus_watch_id := 0\<rparr>
                else s1);
          s3 = (case pipeline s2 of
                  None \<Rightarrow> s2
                | Some p \<Rightarrow>
                    (record_call (ObjectUnref p)
                       (gst_element_set_state (Some p) GST_STATE_NULL s2))\<lparr>pipeline := None\<rparr>);
          s4 = (if bus s3 then (record_call BusUnref s3)\<lparr>bus := False\<rparr> else s3);
          s5 = (if loop s4 then (record_call MainLoopUnref s4)\<lparr>loop := False\<rparr> else s4)
      in s5)"

subsection \<open>Building the graph\<close>

text \<open>The engine's answers to the fallible calls of \<open>connect_dummy_source\<close>.\<close>

record dummy_results =
  dummy_convert_ok :: bool
  dummy_caps_ok :: bool
  dummy_chain_link_ok :: bool
  dummy_pad_ok :: bool
  dummy_selector_pad_ok :: bool
  dummy_selector_link_ok :: bool

definition connect_dummy_source :: "dummy_results \<Rightarrow> streamer \<Rightarrow> bool \<times> streamer" where
  "connect_dummy_source r s0 =
     (let (dummy_convert, s1) =
            gst_element_factory_make (dummy_convert_ok r) ''videoconvert'' (Some ''dummy-convert'') s0;
          (dummy_caps, s2) =
            gst_element_factory_make (dummy_caps_ok r) ''capsfilter'' (Some ''dummy-caps'') s1
      in case (dummy_caps, dummy_convert, dummy_src s2) of
           (Some dcaps, Some dconv, Some dsrc) \<Rightarrow>
             (let s3 = g_object_set dcaps ''caps'' (VCaps (video_raw_caps 1920 1080)) s2;
                  s4 = record_call (BinAdd (pipeline s3) [dconv, dcaps]) s3;
                  (linked, s5) =
                    gst_element_link_many (dummy_chain_link_ok r) [dsrc, dconv, dcaps] s4
              in if \<not> linked then (False, s5)
                 else
                   (let (dummy_pad, s6) =
                          gst_element_get_static_pad (dummy_pad_ok r) dcaps ''src'' s5;
                        (selector_pad, s7) =
                          gst_element_get_request_pad (dummy_selector_pad_ok r)
                            (input_selector s6) ''sink_%u'' s6;
                        (pad_linked, s8) =
                          gst_pad_link (dummy_selector_link_ok r) dummy_pad selector_pad s7
                    in if \<not> pad_linked then (False, s8)
                       else (case input_selector s8 of
                               None \<Rightarrow> (True, s8)
                             | Some sel \<Rightarrow>
                                 (True, g_object_set_data sel ''dummy-pad'' selector_pad s8))))
         | _ \<Rightarrow> (False, s2))"

text \<open>The engine's answers to the fallible calls of one \<open>create_dash_pipeline\<close>.\<close>

record dash_results =
  queue_ok :: bool
  videoconvert_ok :: bool
  videoscale_ok :: bool
  videorate_ok :: bool
  capsfilter_ok :: bool
  encoder_ok :: bool
  h264parse_ok :: bool
  dash_sink_ok :: bool
  dash_chain_link_ok :: bool
  tee_pad_ok :: bool
  queue_pad_ok :: bool
  tee_queue_link_ok :: bool

definition create_dash_pipeline ::
  "dash_results \<Rightarrow> string \<Rightarrow> int \<Rightarrow> int \<Rightarrow> int \<Rightarrow> streamer \<Rightarrow> bool \<times> streamer" where
  "create_dash_pipeline r quality width height bitrate s0 =
     (let (queue, s1) =
            gst_element_factory_make (queue_ok r) ''queue'' (Some (''queue-'' @ quality)) s0;
          (videoconvert, s2) =
            gst_element_factory_make (videoconvert_ok r) ''videoconvert'' None s1;
          (videoscale, s3) =
            gst_element_factory_make (videoscale_ok r) ''videoscale'' (Some (''scale-'' @ quality)) s2;
          (videorate, s4) =
            gst_element_factory_make (videorate_ok r) ''videorate'' (Some (''rate-'' @ quality)) s3;
          (capsfilter, s5) =
            gst_element_factory_make (capsfilter_ok r) ''capsfilter'' None s4;
          (encoder, s6) =
            gst_element_factory_make (encoder_ok r) ''openh264enc'' (Some (''encoder-'' @ quality)) s5;
          (h264parse, s7) =
            gst_element_factory_make (h264parse_ok r) ''h264parse'' (Some (''parse-'' @ quality)) s6;
          (dash_sink, s8) =
            gst_element_factory_make (dash_sink_ok r) ''dashsink'' (Some (''dash-sink-'' @ quality)) s7
      in case (queue, videoconvert, videoscale, videorate) of
           (Some q, Some vc, Some vs, Some vr) \<Rightarrow>
             (case (capsfilter, encoder, h264parse, dash_sink) of
                (Some cf, Some enc, Some hp, Some ds) \<Rightarrow>
                  (let s9 = g_object_set cf ''caps'' (VCaps (video_raw_caps width height)) s8;
                       s10 = g_object_set enc ''bitrate'' (VInt bitrate) s9;
                       manifest_path = ''./manifest.mpd'';
                       s11 = g_object_set_many ds
                               [(''mpd-filename'', VString manifest_path),
                                (''muxer'', VInt 0),
                                (''target-duration'', VInt 4),
                                (''use-segment-list'', VBool True),
                                (''mpd-baseurl'', VString ''./''),
                                (''mpd-root-path'', VString (output_path s10)),
                                (''send-keyframe-requests'', VBool True)] s10;
                       s12 = record_call (BinAdd (pipeline s11) [q, vc, vs, vr, cf, enc, hp, ds]) s11;
                       (linked, s13) =
                         gst_element_link_many (dash_chain_link_ok r)
                           [q, vc, vs, vr, cf, enc, hp, ds] s12
                   in if \<not> linked then (False, s13)
                      else
                        (let (tee_pad, s14) =
                               gst_element_get_request_pad (tee_pad_ok r) (tee s13) ''src_%u'' s13
                         in if tee_pad = None then (False, s14)
                            else
                              (let (queue_pad, s15) =
                                     gst_element_get_static_pad (queue_pad_ok r) q ''sink'' s14
                               in if queue_pad = None then (False, s15)
                                  else
                                    (let s16 = fold gst_element_sync_state_with_parent
                                                 [q, vc, vs, vr, cf, enc, hp, ds] s15;
                                         (pad_linked, s17) =
                                           gst_pad_link (tee_queue_link_ok r) tee_pad queue_pad s16
                                     in if \<not> pad_linked then (False, s17)
                                        else if quality = ''fullhd''
                                        then (True, s17\<lparr>dash_sink_fullhd := Some ds\<rparr>)
                                        else (True, s17\<lparr>dash_sink_hd := Some ds\<rparr>)))))
              | _ \<Rightarrow> (False, s8))
         | _ \<Rightarrow> (False, s8))"

definition setup_bus_monitoring :: "streamer \<Rightarrow> streamer" where
  "setup_bus_monitoring s =
     (case pipeline s of
        None \<Rightarrow> s\<lparr>bus := False, bus_watch_id := 0\<rparr>
      | Some p \<Rightarrow>
          (let s1 = (record_call (GetBus p) s)\<lparr>bus := True\<rparr>;
               (i, s2) = g_source_attach BusWatch s1
           in s2\<lparr>bus_watch_id := i\<rparr>))"

text \<open>The engine's answers to the fallible calls of \<open>initialize\<close>.\<close>

record init_results =
  pipeline_ok :: bool
  rtsp_src_ok :: bool
  dummy_src_ok :: bool
  input_selector_ok :: bool
  tee_ok :: bool
  dummy_res :: dummy_results
  selector_tee_link_ok :: bool
  fullhd_res :: dash_results
  hd_res :: dash_results

definition initialize :: "init_results \<Rightarrow> streamer \<Rightarrow> bool \<times> streamer" where
  "initialize r s0 =
     (let (p, s1') = gst_pipeline_new (pipeline_ok r) ''rtsp-dash-pipeline'' s0;
          s1 = s1'\<lparr>pipeline := p\<rparr>
      in case p of
           None \<Rightarrow> (False, s1)
         | Some pl \<Rightarrow>
     (let (e2, s2') = gst_element_factory_make (rtsp_src_ok r) ''rtspsrc'' (Some ''rtsp-source'') s1;
          s2 = s2'\<lparr>rtsp_src := e2\<rparr>
      in case e2 of
           None \<Rightarrow> (False, s2)
         | Some rsrc \<Rightarrow>
     (let s3 = g_object_set_many rsrc
                 [(''location'', VString (rtsp_uri s2)),
                  (''retry'', VInt 999),
                  (''protocols'', VInt 4),
                  (''timeout'', VUInt64 5000000),
                  (''tcp-timeout'', VUInt64 5000000),
                  (''do-retransmission'', VBool True),
                  (''drop-on-latency'', VBool True),
                  (''latency'', VInt 200)] s2;
          (e4, s4') = gst_element_factory_make (dummy_src_ok r) ''videotestsrc'' (Some ''dummy-source'') s3;
          s4 = s4'\<lparr>dummy_src := e4\<rparr>
      in case e4 of
           None \<Rightarrow> (False, s4)
         | Some dsrc \<Rightarrow>
     (let s5 = g_object_set_many dsrc [(''pattern'', VInt 18), (''is-live'', VBool True)] s4;
          (e6, s6') = gst_element_factory_make (input_selector_ok r) ''input-selector''
                        (Some ''input-selector'') s5;
          s6 = s6'\<lparr>input_selector := e6\<rparr>
      in case e6 of
           None \<Rightarrow> (False, s6)
         | Some sel \<Rightarrow>
     (let (e7, s7') = gst_element_factory_make (tee_ok r) ''tee'' (Some ''tee'') s6;
          s7 = s7'\<lparr>tee := e7\<rparr>
      in case e7 of
           None \<Rightarrow> (False, s7)
         | Some t \<Rightarrow>
     (let s8 = record_call (BinAdd (Some pl) [rsrc, dsrc, sel, t]) s7;
          (dummy_connected, s9) = connect_dummy_source (dummy_res r) s8
      in if \<not> dummy_connected then (False, s9)
         else
     (let (tee_linked_ok, s10) = gst_element_link_many (selector_tee_link_ok r) [sel, t] s9
      in if \<not> tee_linked_ok then (False, s10)
         else
     (let (fullhd_created, s11) = create_dash_pipeline (fullhd_res r) ''fullhd'' 1920 1080 5000 s10
      in if \<not> fullhd_created then (False, s11)
         else
     (let (hd_created, s12) = create_dash_pipeline (hd_res r) ''hd'' 1280 720 3000 s11
      in if \<not> hd_created then (False, s12)
         else
     (let s13 = setup_bus_monitoring s12;
          s14 = record_call (SignalConnect (rtsp_src s13) ''pad-added'') s13;
          s15 = record_call (SignalConnect (rtsp_src s14) ''no-more-pads'') s14
      in (True, s15)))))))))))"

subsection \<open>Bus messages\<close>

datatype message =
    MsgError elem
  | MsgEOS
  | MsgStateChanged elem gst_state gst_state
  | MsgOther

text \<open>The handler returns \<open>TRUE\<close>: the bus watch stays attached.\<close>

definition handle_bus_message :: "message \<Rightarrow> streamer \<Rightarrow> bool \<times> streamer" where
  "handle_bus_message msg s =
     (case msg of
        MsgError src \<Rightarrow>
          (True,
           if Some src = rtsp_src s
           then schedule_rtsp_reconnect (switch_to_dummy_source s)
           else stop s)
      | MsgEOS \<Rightarrow> (True, stop s)
      | MsgStateChanged src old_state new_state \<Rightarrow>
          (True,
           if Some src = rtsp_src s
           then (if new_state = GST_STATE_PLAYING
                 then switch_to_rtsp_source (s\<lparr>is_rtsp_connected := True\<rparr>)
                 else if old_state = GST_STATE_PLAYING
                         \<and> state_value new_state < state_value GST_STATE_PLAYING
                 then schedule_rtsp_reconnect
                        (switch_to_dummy_source (s\<lparr>is_rtsp_connected := False\<rparr>))
                 else s)
           else s)
      | MsgOther \<Rightarrow> (True, s))"

subsection \<open>The decode chain of the live source\<close>

text \<open>The engine's answers to the fallible calls of \<open>create_rtsp_decode_chain\<close>.\<close>

record chain_results =
  depay_ok :: bool
  parse_ok :: bool
  decode_ok :: bool
  convert_ok :: bool
  rtsp_caps_ok :: bool
  chain_link_ok :: bool
  depay_sink_ok :: bool
  depay_link_ok :: bool
  convert_src_ok :: bool
  rtsp_selector_pad_ok :: bool
  rtsp_selector_link_ok :: bool
  chain_state :: state_change_return

definition create_rtsp_decode_chain :: "chain_results \<Rightarrow> pad \<Rightarrow> streamer \<Rightarrow> streamer" where
  "create_rtsp_decode_chain r pad s0 =
     (let (depay, s1) =
            gst_element_factory_make (depay_ok r) ''rtph264depay'' (Some ''rtsp-depay'') s0;
          (parse, s2) =
            gst_element_factory_make (parse_ok r) ''h264parse'' (Some ''rtsp-parse'') s1;
          (decode, s3) =
            gst_element_factory_make (decode_ok r) ''avdec_h264'' (Some ''rtsp-decode'') s2;
          (convert, s4) =
            gst_element_factory_make (convert_ok r) ''videoconvert'' (Some ''rtsp-convert'') s3;
          (rtsp_caps, s5) =
            gst_element_factory_make (rtsp_caps_ok r) ''capsfilter'' (Some ''rtsp-caps'') s4
      in case (depay, parse, decode, convert, rtsp_caps) of
           (Some dp, Some ps, Some dc, Some cv, Some rc) \<Rightarrow>
             (let s6 = g_object_set rc ''caps'' (VCaps (video_raw_caps 1920 1080)) s5;
                  s7 = record_call (BinAdd (pipeline s6) [dp, ps, dc, cv, rc]) s6;
                  (linked, s8) = gst_element_link_many (chain_link_ok r) [dp, ps, dc, cv, rc] s7
              in if \<not> linked then s8
                 else
                   (let (depay_sink, s9) =
                          gst_element_get_static_pad (depay_sink_ok r) dp ''sink'' s8;
                        (_, s10) = gst_pad_link (depay_link_ok r) (Some pad) depay_sink s9;
                        (convert_src, s11) =
                          gst_element_get_static_pad (convert_src_ok r) rc ''src'' s10;
                        (selector_pad, s12) =
                          gst_element_get_request_pad (rtsp_selector_pad_ok r)
                            (input_selector s11) ''sink_%u'' s11;
                        (_, s13) =
                          gst_pad_link (rtsp_selector_link_ok r) convert_src selector_pad s12;
                        s14 = (case input_selector s13 of
                                 None \<Rightarrow> s13
                               | Some sel \<Rightarrow> g_object_set_data sel ''rtsp-pad'' selector_pad s13);
                        s15 = fold gst_element_sync_state_with_parent [dp, ps, dc, cv, rc] s14;
                        ret = chain_state r;
                        s16 = record_call (GetState rc ret) s15
                    in if ret = GST_STATE_CHANGE_SUCCESS
                       then snd (g_timeout_add_seconds 1 Switch_to_rtsp_delayed s16)
                       else s16))
         | _ \<Rightarrow> s5)"

definition gst_structure_has_field :: "gst_structure \<Rightarrow> string \<Rightarrow> bool" where
  "gst_structure_has_field st field = (map_of (snd st) field \<noteq> None)"

text \<open>\<open>gst_structure_get_string\<close> returns null unless the field holds a string.\<close>

definition gst_structure_get_string :: "gst_structure \<Rightarrow> string \<Rightarrow> string option" where
  "gst_structure_get_string st field =
     (case map_of (snd st) field of Some (FString v) \<Rightarrow> Some v | _ \<Rightarrow> None)"

text \<open>
  \<open>connect_rtsp_pad\<close> takes the pad's current caps and, when there are none, the caps
  the pad answers to a query.
\<close>

definition connect_rtsp_pad ::
  "chain_results \<Rightarrow> pad \<Rightarrow> gst_structure option \<Rightarrow> gst_structure option \<Rightarrow> streamer \<Rightarrow> streamer" where
  "connect_rtsp_pad r pad current_caps query_caps s =
     (let caps = (case current_caps of None \<Rightarrow> query_caps | Some c \<Rightarrow> Some c)
      in case caps of
           None \<Rightarrow> s
         | Some structure \<Rightarrow>
             if prefix ''application/x-rtp'' (fst structure)
                \<and> gst_structure_has_field structure ''media''
             then (if gst_structure_get_string structure ''media'' = Some ''video''
                   then create_rtsp_decode_chain r pad s
                   else s)
             else s)"

subsection \<open>The main loop\<close>

text \<open>
  What the main loop can dispatch: a message of the bus, a new pad of the live source,
  a timer that is due, and the process signal whose handler calls \<open>stop\<close>.
\<close>

datatype event =
    BusMessage message
  | PadAdded chain_results pad "gst_structure option" "gst_structure option"
  | TimerFire nat
  | Signal

definition g_source_destroy :: "nat \<Rightarrow> streamer \<Rightarrow> streamer" where
  "g_source_destroy i s = s\<lparr>sources := filter (\<lambda>(j, _). j \<noteq> i) (sources s)\<rparr>"

text \<open>A source whose callback returns \<open>FALSE\<close> is destroyed by the loop.\<close>

definition fire :: "nat \<Rightarrow> streamer \<Rightarrow> streamer" where
  "fire i s =
     (case map_of (sources s) i of
        Some (Timeout interval Reconnect_rtsp_source) \<Rightarrow>
          (let (again, s1) = reconnect_rtsp_source s
           in if again then s1 else g_source_destroy i s1)
      | Some (Timeout interval Switch_to_rtsp_delayed) \<Rightarrow>
          (let (again, s1) = switch_to_rtsp_delayed s
           in if again then s1 else g_source_destroy i s1)
      | _ \<Rightarrow> s)"

definition dispatch :: "event \<Rightarrow> streamer \<Rightarrow> streamer" where
  "dispatch ev s =
     (case ev of
        BusMessage msg \<Rightarrow>
          (if map_of (sources s) (bus_watch_id s) = Some BusWatch
           then (let (again, s1) = handle_bus_message msg s
                 in if again then s1 else g_source_destroy (bus_watch_id s) s1)
           else s)
      | PadAdded r pad current_caps query_caps \<Rightarrow> connect_rtsp_pad r pad current_caps query_caps s
      | TimerFire i \<Rightarrow> fire i s
      | Signal \<Rightarrow> stop s)"

text \<open>The loop dispatches events until \<open>g_main_loop_quit\<close> has cleared its flag.\<close>

fun iterate :: "event list \<Rightarrow> streamer \<Rightarrow> streamer" where
  "iterate [] s = s"
| "iterate (ev # evs) s = (if loop_is_running s then iterate evs (dispatch ev s) else s)"

definition g_main_loop_run :: "event list \<Rightarrow> streamer \<Rightarrow> streamer" where
  "g_main_loop_run evs s = iterate evs (record_call MainLoopRun (s\<lparr>loop_is_running := True\<rparr>))"

definition start :: "state_change_return \<Rightarrow> event list \<Rightarrow> streamer \<Rightarrow> bool \<times> streamer" where
  "start ret evs s =
     (case pipeline s of
        None \<Rightarrow> (False, s)
      | Some p \<Rightarrow>
          (let s1 = switch_to_dummy_source s;
               s2 = gst_element_set_state (Some p) GST_STATE_PLAYING s1
           in if ret = GST_STATE_CHANGE_FAILURE then (False, s2)
              else
                (let s3 = (record_call MainLoopNew s2)\<lparr>loop := True\<rparr>;
                     s4 = g_main_loop_run evs s3
                 in (True, s4))))"

text \<open>
  \<open>main\<close>: the exit status and, once the streamer exists, its state after the
  destructor has run \<open>cleanup\<close>.
\<close>

definition main ::
  "string list \<Rightarrow> init_results \<Rightarrow> state_change_return \<Rightarrow> event list \<Rightarrow> int \<times> streamer option" where
  "main argv r ret evs =
     (case argv of
        prog # uri # output # _ \<Rightarrow>
          (let s0 = RTSPDashStreamer uri output;
               (initialized, s1) = initialize r s0
           in if \<not> initialized then (1, Some (cleanup s1))
              else
                (let (started, s2) = start ret evs s1
                 in if \<not> started then (1, Some (cleanup s2))
                    else (0, Some (cleanup s2))))
      | _ \<Rightarrow> (1, None))"

subsection \<open>Engines that never fail\<close>

text \<open>The answers of an engine on which every call succeeds, for concrete runs.\<close>

definition dummy_all_ok :: dummy_results where
  "dummy_all_ok =
     \<lparr> dummy_convert_ok = True, dummy_caps_ok = True, dummy_chain_link_ok = True,
       dummy_pad_ok = True, dummy_selector_pad_ok = True, dummy_selector_link_ok = True \<rparr>"

definition dash_all_ok :: dash_results where
  "dash_all_ok =
     \<lparr> queue_ok = True, videoconvert_ok = True, videoscale_ok = True, videorate_ok = True,
       capsfilter_ok = True, encoder_ok = True, h264parse_ok = True, dash_sink_ok = True,
       dash_chain_link_ok = True, tee_pad_ok = True, queue_pad_ok = True,
       tee_queue_link_ok = True \<rparr>"

definition init_all_ok :: init_results where
  "init_all_ok =
     \<lparr> pipeline_ok = True, rtsp_src_ok = True, dummy_src_ok = True, input_selector_ok = True,
       tee_ok = True, dummy_res = dummy_all_ok, selector_tee_link_ok = True,
       fullhd_res = dash_all_ok, hd_res = dash_all_ok \<rparr>"

definition chain_all_ok :: chain_results where
  "chain_all_ok =
     \<lparr> depay_ok = True, parse_ok = True, decode_ok = True, convert_ok = True,
       rtsp_caps_ok = True, chain_link_ok = True, depay_sink_ok = True, depay_link_ok = True,
       convert_src_ok = True, rtsp_selector_pad_ok = True, rtsp_selector_link_ok = True,
       chain_state = GST_STATE_CHANGE_SUCCESS \<rparr>"

text \<open>
  The streamer of a session on such an engine, at the moment its main loop starts
  dispatching: built by \<open>initialize\<close> and started by \<open>start\<close>.
\<close>

definition started :: "string \<Rightarrow> string \<Rightarrow> streamer" where
  "started uri output =
     snd (start GST_STATE_CHANGE_SUCCESS []
            (snd (initialize init_all_ok (RTSPDashStreamer uri output))))"

section \<open>Observations\<close>

text \<open>The pad the selector routes, and the pads stored on it for the two branches.\<close>

definition active_pad :: "streamer \<Rightarrow> pad option" where
  "active_pad s =
     (case input_selector s of
        None \<Rightarrow> None
      | Some sel \<Rightarrow> (case props s (sel, ''active-pad'') of Some (VPad p) \<Rightarrow> Some p | _ \<Rightarrow> None))"

definition dummy_pad :: "streamer \<Rightarrow> pad option" where
  "dummy_pad s = g_object_get_data (input_selector s) ''dummy-pad'' s"

definition rtsp_pad :: "streamer \<Rightarrow> pad option" where
  "rtsp_pad s = g_object_get_data (input_selector s) ''rtsp-pad'' s"

text \<open>The pending timers that will run a given callback, with their ids and intervals.\<close>

definition is_timer :: "callback \<Rightarrow> nat \<times> source \<Rightarrow> bool" where
  "is_timer cb x = (case snd x of Timeout interval c \<Rightarrow> c = cb | BusWatch \<Rightarrow> False)"

definition pending :: "callback \<Rightarrow> streamer \<Rightarrow> (nat \<times> source) list" where
  "pending cb s = filter (is_timer cb) (sources s)"

text \<open>
  How the streamer keeps track of its event sources: source ids are positive, pairwise
  different and below the next id the main context hands out; the bus watch is attached
  under \<open>bus_watch_id\<close>; and the pending reconnect timers are exactly the one recorded in
  \<open>reconnect_timeout_id\<close>, with a 5 second interval, or none when the field is 0.
\<close>

definition timers_tracked :: "streamer \<Rightarrow> bool" where
  "timers_tracked s =
     (distinct (map fst (sources s))
      \<and> list_all (\<lambda>x. 0 < fst x \<and> fst x < next_source s) (sources s)
      \<and> 0 < next_source s
      \<and> map_of (sources s) (bus_watch_id s) = Some BusWatch
      \<and> pending Reconnect_rtsp_source s
          = (if 0 < reconnect_timeout_id s
             then [(reconnect_timeout_id s, Timeout 5 Reconnect_rtsp_source)]
             else []))"

text \<open>What an event never changes once the graph is built.\<close>

definition keeps_setup :: "streamer \<Rightarrow> streamer \<Rightarrow> bool" where
  "keeps_setup s s' =
     (pipeline s' = pipeline s \<and> rtsp_src s' = rtsp_src s
      \<and> input_selector s' = input_selector s \<and> bus s' = bus s \<and> loop s' = loop s
      \<and> bus_watch_id s' = bus_watch_id s \<and> dummy_pad s' = dummy_pad s)"

text \<open>The events on which the bus handler reports the live source lost.\<close>

definition source_lost :: "streamer \<Rightarrow> event \<Rightarrow> bool" where
  "source_lost s ev =
     (case ev of
        BusMessage (MsgError src) \<Rightarrow> Some src = rtsp_src s
      | BusMessage (MsgStateChanged src old_state new_state) \<Rightarrow>
          Some src = rtsp_src s \<and> old_state = GST_STATE_PLAYING \<and> new_state \<noteq> GST_STATE_PLAYING
      | _ \<Rightarrow> False)"

text \<open>
  The decode chain is ready when all its elements were created and linked and the wait
  for its state change reports success.
\<close>

definition chain_ready :: "chain_results \<Rightarrow> bool" where
  "chain_ready r =
     (depay_ok r \<and> parse_ok r \<and> decode_ok r \<and> convert_ok r \<and> rtsp_caps_ok r
      \<and> chain_link_ok r \<and> chain_state r = GST_STATE_CHANGE_SUCCESS)"

text \<open>The events that run the delayed switch to the live source.\<close>

definition fires_switch :: "streamer \<Rightarrow> event \<Rightarrow> bool" where
  "fires_switch s ev =
     (case ev of
        TimerFire i \<Rightarrow>
          (case map_of (sources s) i of
             Some (Timeout interval Switch_to_rtsp_delayed) \<Rightarrow> True
           | _ \<Rightarrow> False)
      | _ \<Rightarrow> False)"


text \<open>The events by which the live source reports that it reached the playing state.\<close>

definition source_playing :: "streamer \<Rightarrow> event \<Rightarrow> bool" where
  "source_playing s ev =
     (case ev of
        BusMessage (MsgStateChanged src old_state new_state) \<Rightarrow>
          Some src = rtsp_src s \<and> new_state = GST_STATE_PLAYING
      | _ \<Rightarrow> False)"

section \<open>Building the graph: outcomes and order\<close>

text \<open>Every fallible call of one function succeeded.\<close>

definition dummy_ok :: "dummy_results \<Rightarrow> bool" where
  "dummy_ok r =
     (dummy_convert_ok r \<and> dummy_caps_ok r \<and> dummy_chain_link_ok r \<and> dummy_pad_ok r
      \<and> dummy_selector_pad_ok r \<and> dummy_selector_link_ok r)"

definition dash_ok :: "dash_results \<Rightarrow> bool" where
  "dash_ok r =
     (queue_ok r \<and> videoconvert_ok r \<and> videoscale_ok r \<and> videorate_ok r \<and> capsfilter_ok r
      \<and> encoder_ok r \<and> h264parse_ok r \<and> dash_sink_ok r \<and> dash_chain_link_ok r
      \<and> tee_pad_ok r \<and> queue_pad_ok r \<and> tee_queue_link_ok r)"

definition core_ok :: "init_results \<Rightarrow> bool" where
  "core_ok r =
     (pipeline_ok r \<and> rtsp_src_ok r \<and> dummy_src_ok r \<and> input_selector_ok r \<and> tee_ok r
      \<and> dummy_ok (dummy_res r) \<and> selector_tee_link_ok r)"

text \<open>
  The calls that create an element of a profile branch: the factories only
  \<open>create_dash_pipeline\<close> uses, and its two elements created without a name.
\<close>

definition is_profile_make :: "call \<Rightarrow> bool" where
  "is_profile_make c =
     (case c of
        FactoryMake factory name e \<Rightarrow>
          factory \<in> set [''queue'', ''videoscale'', ''videorate'', ''openh264enc'', ''h264parse'',
                          ''dashsink'']
          \<or> (factory \<in> set [''videoconvert'', ''capsfilter''] \<and> name = None)
      | _ \<Rightarrow> False)"

text \<open>The log up to the first creation of a profile branch element.\<close>

definition before_profiles :: "call list \<Rightarrow> call list" where
  "before_profiles cs = takeWhile (\<lambda>c. \<not> is_profile_make c) cs"

text \<open>
  The streamer once \<open>initialize\<close> has created and linked the sources, the fallback
  branch, the selector and the tee, when each of these calls succeeded (lemma
  \<open>initialize_core_ok\<close>).
\<close>

definition core_built :: "string \<Rightarrow> string \<Rightarrow> streamer" where
  "core_built uri output =
     \<lparr>pipeline = Some 1, rtsp_src = Some 2, dummy_src = Some 3, input_selector = Some 4,
      tee = Some 5, dash_sink_fullhd = None, dash_sink_hd = None, bus = False, loop = False,
      bus_watch_id = 0, reconnect_timeout_id = 0, rtsp_uri = uri, output_path = output,
      is_rtsp_connected = False, tee_linked = False, next_elem = 8, next_pad = 1,
      props =
        [(2, ''location'') \<mapsto> VString uri, (2, ''retry'') \<mapsto> VInt 999,
         (2, ''protocols'') \<mapsto> VInt 4, (2, ''timeout'') \<mapsto> VUInt64 5000000,
         (2, ''tcp-timeout'') \<mapsto> VUInt64 5000000, (2, ''do-retransmission'') \<mapsto> VBool True,
         (2, ''drop-on-latency'') \<mapsto> VBool True, (2, ''latency'') \<mapsto> VInt 200,
         (3, ''pattern'') \<mapsto> VInt 18, (3, ''is-live'') \<mapsto> VBool True,
         (7, ''caps'') \<mapsto>
           VCaps (''video/x-raw'',
                  [(''format'', FString ''I420''), (''width'', FInt 1920),
                   (''height'', FInt 1080), (''framerate'', FFraction 25 1)])],
      object_data = [(4, ''dummy-pad'') \<mapsto> RequestPad 4 ''sink_%u'' 0],
      sources = [], next_source = 1, loop_is_running = False,
      calls =
        [PipelineNew ''rtsp-dash-pipeline'' (Some 1),
         FactoryMake ''rtspsrc'' (Some ''rtsp-source'') (Some 2),
         FactoryMake ''videotestsrc'' (Some ''dummy-source'') (Some 3),
         FactoryMake ''input-selector'' (Some ''input-selector'') (Some 4),
         FactoryMake ''tee'' (Some ''tee'') (Some 5),
         BinAdd (Some 1) [2, 3, 4, 5],
         FactoryMake ''videoconvert'' (Some ''dummy-convert'') (Some 6),
         FactoryMake ''capsfilter'' (Some ''dummy-caps'') (Some 7),
         BinAdd (Some 1) [6, 7],
         ElementLink [3, 6, 7] True,
         GetStaticPad 7 ''src'' (Some (StaticPad 7 ''src'')),
         GetRequestPad (Some 4) ''sink_%u'' (Some (RequestPad 4 ''sink_%u'' 0)),
         PadLink (Some (StaticPad 7 ''src'')) (Some (RequestPad 4 ''sink_%u'' 0)) True,
         ElementLink [4, 5] True]\<rparr>"

text \<open>
  The part of \<open>initialize\<close> that follows the link of the selector to the tee: the two
  profile branches, the bus watch and the signal handlers. It is \<open>initialize\<close> itself
  from that point on (lemma \<open>initialize_core_ok\<close>).
\<close>

definition profiles_phase :: "init_results \<Rightarrow> streamer \<Rightarrow> bool \<times> streamer" where
  "profiles_phase r s10 =
     (let (fullhd_created, s11) = create_dash_pipeline (fullhd_res r) ''fullhd'' 1920 1080 5000 s10
      in if \<not> fullhd_created then (False, s11)
         else
     (let (hd_created, s12) = create_dash_pipeline (hd_res r) ''hd'' 1280 720 3000 s11
      in if \<not> hd_created then (False, s12)
         else
     (let s13 = setup_bus_monitoring s12;
          s14 = record_call (SignalConnect (rtsp_src s13) ''pad-added'') s13;
          s15 = record_call (SignalConnect (rtsp_src s14) ''no-more-pads'') s14
      in (True, s15))))"

text \<open>The calls by which \<open>start\<close> starts streaming: a state change to playing, the main loop.\<close>

definition is_start_call :: "call \<Rightarrow> bool" where
  "is_start_call c =
     (case c of
        SetState e st \<Rightarrow> st = GST_STATE_PLAYING
      | MainLoopNew \<Rightarrow> True
      | MainLoopRun \<Rightarrow> True
      | _ \<Rightarrow> False)"

text \<open>The element a pad belongs to.\<close>

fun pad_owner :: "pad \<Rightarrow> elem" where
  "pad_owner (StaticPad e name) = e"
| "pad_owner (RequestPad e name n) = e"
| "pad_owner (StreamPad e n) = e"

text \<open>
  The links of the log in which an element takes part: the element links that name it
  and the pad links of one of its pads.
\<close>

definition links_of :: "elem \<Rightarrow> streamer \<Rightarrow> call list" where
  "links_of e s =
     filter (\<lambda>c. case c of
                   ElementLink es ok \<Rightarrow> e \<in> set es
                 | PadLink src snk ok \<Rightarrow>
                     map_option pad_owner src = Some e \<or> map_option pad_owner snk = Some e
                 | _ \<Rightarrow> False)
       (calls s)"

section \<open>A concrete session\<close>

text \<open>
  A session on an engine that never fails, after the main loop has dispatched the given
  events; the live source announces an H.264 video stream.
\<close>

definition video_rtp_caps :: gst_structure where
  "video_rtp_caps =
     (''application/x-rtp'', [(''media'', FString ''video''), (''encoding-name'', FString ''H264'')])"

definition live_pad_added :: event where
  "live_pad_added = PadAdded chain_all_ok (StreamPad 2 0) (Some video_rtp_caps) None"

text \<open>The same announcement on an engine whose decode chain fails to change state.\<close>

definition live_pad_added_unready :: event where
  "live_pad_added_unready =
     PadAdded (chain_all_ok\<lparr>chain_state := GST_STATE_CHANGE_FAILURE\<rparr>) (StreamPad 2 0)
       (Some video_rtp_caps) None"

definition session :: "event list \<Rightarrow> streamer" where
  "session evs = iterate evs (started ''rtsp://camera:554/stream'' ''/tmp/dash-output'')"

text \<open>An engine on which only the encoder of the HD branch cannot be created.\<close>

definition hd_encoder_fails :: init_results where
  "hd_encoder_fails = init_all_ok\<lparr>hd_res := dash_all_ok\<lparr>encoder_ok := False\<rparr>\<rparr>"



section \<open>Running the model\<close>

text \<open>
  The library calls that read and write several fields are run on explicit states, so
  that a call is evaluated only once its state argument has been computed.
\<close>

lemma record_call_exec:
  "record_call c \<lparr>pipeline = pl, rtsp_src = rs, dummy_src = ds, input_selector = sel, tee
   = t, dash_sink_fullhd = fh, dash_sink_hd = hq, bus = b, loop = l, bus_watch_id = bw,
   reconnect_timeout_id = rt, rtsp_uri = uri, output_path = out, is_rtsp_connected = conn,
   tee_linked = lk, next_elem = ne, next_pad = np, props = pr, object_data = od, sources = srcs,
   next_source = ns, loop_is_running = run, calls = cs\<rparr> =
     \<lparr>pipeline = pl, rtsp_src = rs, dummy_src = ds, input_selector = sel, tee = t,
     dash_sink_fullhd = fh, dash_sink_hd = hq, bus = b, loop = l, bus_watch_id = bw,
     reconnect_timeout_id = rt, rtsp_uri = uri, output_path = out, is_rtsp_connected = conn,
     tee_linked = lk, next_elem = ne, next_pad = np, props = pr, object_data = od, sources =
     srcs, next_source = ns, loop_is_running = run, calls = cs @ [c]\<rparr>"
  by (simp add: record_call_def)

lemma gst_pipeline_new_exec:
  "gst_pipeline_new ok name \<lparr>pipeline = pl, rtsp_src = rs, dummy_src = ds, input_selector
   = sel, tee = t, dash_sink_fullhd = fh, dash_sink_hd = hq, bus = b, loop = l, bus_watch_id =
   bw, reconnect_timeout_id = rt, rtsp_uri = uri, output_path = out, is_rtsp_connected = conn,
   tee_linked = lk, next_elem = ne, next_pad = np, props = pr, object_data = od, sources = srcs,
   next_source = ns, loop_is_running = run, calls = cs\<rparr> =
     (if ok then Some ne else None, \<lparr>pipeline = pl, rtsp_src = rs, dummy_src = ds,
     input_selector = sel, tee = t, dash_sink_fullhd = fh, dash_sink_hd = hq, bus = b, loop = l,
     bus_watch_id = bw, reconnect_timeout_id = rt, rtsp_uri = uri, output_path = out,
     is_rtsp_connected = conn, tee_linked = lk, next_elem = (if ok then ne + 1 else ne),
     next_pad = np, props = pr, object_data = od, sources = srcs, next_source = ns,
     loop_is_running = run, calls = cs @ [PipelineNew name (if ok then Some ne else
     None)]\<rparr>)"
  by (simp add: gst_pipeline_new_def record_call_def)

lemma gst_element_factory_make_exec:
  "gst_element_factory_make ok factory name \<lparr>pipeline = pl, rtsp_src = rs, dummy_src =
   ds, input_selector = sel, tee = t, dash_sink_fullhd = fh, dash_sink_hd = hq, bus = b, loop =
   l, bus_watch_id = bw, reconnect_timeout_id = rt, rtsp_uri = uri, output_path = out,
   is_rtsp_connected = conn, tee_linked = lk, next_elem = ne, next_pad = np, props = pr,
   object_data = od, sources = srcs, next_source = ns, loop_is_running = run, calls = cs\<rparr> =
     (if ok then Some ne else None, \<lparr>pipeline = pl, rtsp_src = rs, dummy_src = ds,
     input_selector = sel, tee = t, dash_sink_fullhd = fh, dash_sink_hd = hq, bus = b, loop = l,
     bus_watch_id = bw, reconnect_timeout_id = rt, rtsp_uri = uri, output_path = out,
     is_rtsp_connected = conn, tee_linked = lk, next_elem = (if ok then ne + 1 else ne),
     next_pad = np, props = pr, object_data = od, sources = srcs, next_source = ns,
     loop_is_running = run, calls = cs @ [FactoryMake factory name (if ok then Some ne else
     None)]\<rparr>)"
  by (simp add: gst_element_factory_make_def record_call_def)

lemma g_object_set_exec:
  "g_object_set e key v \<lparr>pipeline = pl, rtsp_src = rs, dummy_src = ds, input_selector =
   sel, tee = t, dash_sink_fullhd = fh, dash_sink_hd = hq, bus = b, loop = l, bus_watch_id = bw,
   reconnect_timeout_id = rt, rtsp_uri = uri, output_path = out, is_rtsp_connected = conn,
   tee_linked = lk, next_elem = ne, next_pad = np, props = pr, object_data = od, sources = srcs,
   next_source = ns, loop_is_running = run, calls = cs\<rparr> =
     \<lparr>pipeline = pl, rtsp_src = rs, dummy_src = ds, input_selector = sel, tee = t,
     dash_sink_fullhd = fh, dash_sink_hd = hq, bus = b, loop = l, bus_watch_id = bw,
     reconnect_timeout_id = rt, rtsp_uri = uri, output_path = out, is_rtsp_connected = conn,
     tee_linked = lk, next_elem = ne, next_pad = np, props = pr((e, key) := Some v), object_data
     = od, sources = srcs, next_source = ns, loop_is_running = run, calls = cs\<rparr>"
  by (simp add: g_object_set_def)

lemma g_object_set_data_exec:
  "g_object_set_data e key p \<lparr>pipeline = pl, rtsp_src = rs, dummy_src = ds,
   input_selector = sel, tee = t, dash_sink_fullhd = fh, dash_sink_hd = hq, bus = b, loop = l,
   bus_watch_id = bw, reconnect_timeout_id = rt, rtsp_uri = uri, output_path = out,
   is_rtsp_connected = conn, tee_linked = lk, next_elem = ne, next_pad = np, props = pr,
   object_data = od, sources = srcs, next_source = ns, loop_is_running = run, calls = cs\<rparr> =
     \<lparr>pipeline = pl, rtsp_src = rs, dummy_src = ds, input_selector = sel, tee = t,
     dash_sink_fullhd = fh, dash_sink_hd = hq, bus = b, loop = l, bus_watch_id = bw,
     reconnect_timeout_id = rt, rtsp_uri = uri, output_path = out, is_rtsp_connected = conn,
     tee_linked = lk, next_elem = ne, next_pad = np, props = pr, object_data = od((e, key) :=
     p), sources = srcs, next_source = ns, loop_is_running = run, calls = cs\<rparr>"
  by (simp add: g_object_set_data_def)

lemma gst_element_get_request_pad_exec:
  "gst_element_get_request_pad ok (Some x) name \<lparr>pipeline = pl, rtsp_src = rs, dummy_src
   = ds, input_selector = sel, tee = t, dash_sink_fullhd = fh, dash_sink_hd = hq, bus = b, loop
   = l, bus_watch_id = bw, reconnect_timeout_id = rt, rtsp_uri = uri, output_path = out,
   is_rtsp_connected = conn, tee_linked = lk, next_elem = ne, next_pad = np, props = pr,
   object_data = od, sources = srcs, next_source = ns, loop_is_running = run, calls = cs\<rparr> =
     (if ok then Some (RequestPad x name np) else None, \<lparr>pipeline = pl, rtsp_src = rs,
     dummy_src = ds, input_selector = sel, tee = t, dash_sink_fullhd = fh, dash_sink_hd = hq,
     bus = b, loop = l, bus_watch_id = bw, reconnect_timeout_id = rt, rtsp_uri = uri,
     output_path = out, is_rtsp_connected = conn, tee_linked = lk, next_elem = ne, next_pad =
     (if ok then np + 1 else np), props = pr, object_data = od, sources = srcs, next_source =
     ns, loop_is_running = run, calls = cs @ [GetRequestPad (Some x) name (if ok then Some
     (RequestPad x name np) else None)]\<rparr>)"
  by (simp add: gst_element_get_request_pad_def record_call_def)

lemma gst_element_get_request_pad_null_exec:
  "gst_element_get_request_pad ok None name \<lparr>pipeline = pl, rtsp_src = rs, dummy_src =
   ds, input_selector = sel, tee = t, dash_sink_fullhd = fh, dash_sink_hd = hq, bus = b, loop =
   l, bus_watch_id = bw, reconnect_timeout_id = rt, rtsp_uri = uri, output_path = out,
   is_rtsp_connected = conn, tee_linked = lk, next_elem = ne, next_pad = np, props = pr,
   object_data = od, sources = srcs, next_source = ns, loop_is_running = run, calls = cs\<rparr> =
     (None, \<lparr>pipeline = pl, rtsp_src = rs, dummy_src = ds, input_selector = sel, tee = t,
     dash_sink_fullhd = fh, dash_sink_hd = hq, bus = b, loop = l, bus_watch_id = bw,
     reconnect_timeout_id = rt, rtsp_uri = uri, output_path = out, is_rtsp_connected = conn,
     tee_linked = lk, next_elem = ne, next_pad = np, props = pr, object_data = od, sources =
     srcs, next_source = ns, loop_is_running = run, calls = cs @ [GetRequestPad None name
     None]\<rparr>)"
  by (simp add: gst_element_get_request_pad_def record_call_def)

lemma g_source_attach_exec:
  "g_source_attach src \<lparr>pipeline = pl, rtsp_src = rs, dummy_src = ds, input_selector =
   sel, tee = t, dash_sink_fullhd = fh, dash_sink_hd = hq, bus = b, loop = l, bus_watch_id = bw,
   reconnect_timeout_id = rt, rtsp_uri = uri, output_path = out, is_rtsp_connected = conn,
   tee_linked = lk, next_elem = ne, next_pad = np, props = pr, object_data = od, sources = srcs,
   next_source = ns, loop_is_running = run, calls = cs\<rparr> =
     (ns, \<lparr>pipeline = pl, rtsp_src = rs, dummy_src = ds, input_selector = sel, tee = t,
     dash_sink_fullhd = fh, dash_sink_hd = hq, bus = b, loop = l, bus_watch_id = bw,
     reconnect_timeout_id = rt, rtsp_uri = uri, output_path = out, is_rtsp_connected = conn,
     tee_linked = lk, next_elem = ne, next_pad = np, props = pr, object_data = od, sources =
     srcs @ [(ns, src)], next_source = ns + 1, loop_is_running = run, calls = cs @ [SourceAdd ns
     src]\<rparr>)"
  by (simp add: g_source_attach_def record_call_def)

lemma g_source_remove_exec:
  "g_source_remove i \<lparr>pipeline = pl, rtsp_src = rs, dummy_src = ds, input_selector = sel,
   tee = t, dash_sink_fullhd = fh, dash_sink_hd = hq, bus = b, loop = l, bus_watch_id = bw,
   reconnect_timeout_id = rt, rtsp_uri = uri, output_path = out, is_rtsp_connected = conn,
   tee_linked = lk, next_elem = ne, next_pad = np, props = pr, object_data = od, sources = srcs,
   next_source = ns, loop_is_running = run, calls = cs\<rparr> =
     \<lparr>pipeline = pl, rtsp_src = rs, dummy_src = ds, input_selector = sel, tee = t,
     dash_sink_fullhd = fh, dash_sink_hd = hq, bus = b, loop = l, bus_watch_id = bw,
     reconnect_timeout_id = rt, rtsp_uri = uri, output_path = out, is_rtsp_connected = conn,
     tee_linked = lk, next_elem = ne, next_pad = np, props = pr, object_data = od, sources =
     filter (\<lambda>(j, _). j \<noteq> i) srcs, next_source = ns, loop_is_running = run, calls
     = cs @ [SourceRemove i]\<rparr>"
  by (simp add: g_source_remove_def record_call_def)

lemma g_source_destroy_exec:
  "g_source_destroy i \<lparr>pipeline = pl, rtsp_src = rs, dummy_src = ds, input_selector =
   sel, tee = t, dash_sink_fullhd = fh, dash_sink_hd = hq, bus = b, loop = l, bus_watch_id = bw,
   reconnect_timeout_id = rt, rtsp_uri = uri, output_path = out, is_rtsp_connected = conn,
   tee_linked = lk, next_elem = ne, next_pad = np, props = pr, object_data = od, sources = srcs,
   next_source = ns, loop_is_running = run, calls = cs\<rparr> =
     \<lparr>pipeline = pl, rtsp_src = rs, dummy_src = ds, input_selector = sel, tee = t,
     dash_sink_fullhd = fh, dash_sink_hd = hq, bus = b, loop = l, bus_watch_id = bw,
     reconnect_timeout_id = rt, rtsp_uri = uri, output_path = out, is_rtsp_connected = conn,
     tee_linked = lk, next_elem = ne, next_pad = np, props = pr, object_data = od, sources =
     filter (\<lambda>(j, _). j \<noteq> i) srcs, next_source = ns, loop_is_running = run, calls
     = cs\<rparr>"
  by (simp add: g_source_destroy_def)


lemmas exec_rules =
  record_call_exec gst_pipeline_new_exec gst_element_factory_make_exec g_object_set_exec
  g_object_set_data_exec gst_element_get_request_pad_exec gst_element_get_request_pad_null_exec
  g_source_attach_exec g_source_remove_exec g_source_destroy_exec

lemmas lib_defs =
  g_object_get_data_def gst_element_link_many_def gst_element_get_static_pad_def
  gst_pad_link_def g_timeout_add_seconds_def gst_element_sync_state_with_parent_def
  gst_element_set_state_def g_main_loop_quit_def g_main_loop_run_def video_raw_caps_def
  gst_structure_get_string_def gst_structure_has_field_def

lemmas ok_defs = dummy_all_ok_def dash_all_ok_def init_all_ok_def chain_all_ok_def

lemmas streamer_defs =
  switch_to_dummy_source_def switch_to_rtsp_source_def switch_to_rtsp_delayed_def
  schedule_rtsp_reconnect_def reconnect_rtsp_source_def stop_def cleanup_def
  connect_dummy_source_def create_dash_pipeline_def setup_bus_monitoring_def initialize_def
  handle_bus_message_def create_rtsp_decode_chain_def connect_rtsp_pad_def fire_def
  dispatch_def start_def

lemmas run = RTSPDashStreamer_def exec_rules lib_defs ok_defs streamer_defs Let_def

text \<open>The state in which the main loop of a session starts dispatching.\<close>

lemma started_state:
  "started uri output =
   \<lparr>pipeline = Some 1, rtsp_src = Some 2, dummy_src = Some 3,
     input_selector = Some 4, tee = Some 5, dash_sink_fullhd = Some 15,
     dash_sink_hd = Some 23, bus = True, loop = True, bus_watch_id = 1,
     reconnect_timeout_id = 0, rtsp_uri = uri, output_path = output,
     is_rtsp_connected = False, tee_linked = False, next_elem = 24,
     next_pad = 3,
     props =
     [(2, ''location'') \<mapsto> VString uri, (2, ''retry'') \<mapsto> VInt 999,
     (2, ''protocols'') \<mapsto> VInt 4, (2, ''timeout'') \<mapsto> VUInt64 5000000,
     (2, ''tcp-timeout'') \<mapsto> VUInt64 5000000,
     (2, ''do-retransmission'') \<mapsto> VBool True,
     (2, ''drop-on-latency'') \<mapsto> VBool True, (2, ''latency'') \<mapsto> VInt 200,
     (3, ''pattern'') \<mapsto> VInt 18, (3, ''is-live'') \<mapsto> VBool True,
     (7, ''caps'') \<mapsto>
     VCaps
     (''video/x-raw'',
     [(''format'', FString ''I420''), (''width'', FInt 1920),
     (''height'', FInt 1080), (''framerate'', FFraction 25 1)]),
     (12, ''caps'') \<mapsto>
     VCaps
     (''video/x-raw'',
     [(''format'', FString ''I420''), (''width'', FInt 1920),
     (''height'', FInt 1080), (''framerate'', FFraction 25 1)]),
     (13, ''bitrate'') \<mapsto> VInt 5000,
     (15, ''mpd-filename'') \<mapsto> VString ''./manifest.mpd'',
     (15, ''muxer'') \<mapsto> VInt 0, (15, ''target-duration'') \<mapsto> VInt 4,
     (15, ''use-segment-list'') \<mapsto> VBool True,
     (15, ''mpd-baseurl'') \<mapsto> VString ''./'',
     (15, ''mpd-root-path'') \<mapsto> VString output,
     (15, ''send-keyframe-requests'') \<mapsto> VBool True,
     (20, ''caps'') \<mapsto>
     VCaps
     (''video/x-raw'',
     [(''format'', FString ''I420''), (''width'', FInt 1280),
     (''height'', FInt 720), (''framerate'', FFraction 25 1)]),
     (21, ''bitrate'') \<mapsto> VInt 3000,
     (23, ''mpd-filename'') \<mapsto> VString ''./manifest.mpd'',
     (23, ''muxer'') \<mapsto> VInt 0, (23, ''target-duration'') \<mapsto> VInt 4,
     (23, ''use-segment-list'') \<mapsto> VBool True,
     (23, ''mpd-baseurl'') \<mapsto> VString ''./'',
     (23, ''mpd-root-path'') \<mapsto> VString output,
     (23, ''send-keyframe-requests'') \<mapsto> VBool True,
     (4, ''active-pad'') \<mapsto> VPad (RequestPad 4 ''sink_%u'' 0)],
     object_data = [(4, ''dummy-pad'') \<mapsto> RequestPad 4 ''sink_%u'' 0],
     sources = [(1, BusWatch)], next_source = 2, loop_is_running = True,
     calls =
     [PipelineNew ''rtsp-dash-pipeline'' (Some 1),
     FactoryMake ''rtspsrc'' (Some ''rtsp-source'') (Some 2),
     FactoryMake ''videotestsrc'' (Some ''dummy-source'') (Some 3),
     FactoryMake ''input-selector'' (Some ''input-selector'') (Some 4),
     FactoryMake ''tee'' (Some ''tee'') (Some 5),
     BinAdd (Some 1) [2, 3, 4, 5],
     FactoryMake ''videoconvert'' (Some ''dummy-convert'') (Some 6),
     FactoryMake ''capsfilter'' (Some ''dummy-caps'') (Some 7),
     BinAdd (Some 1) [6, 7], ElementLink [3, 6, 7] True,
     GetStaticPad 7 ''src'' (Some (StaticPad 7 ''src'')),
     GetRequestPad (Some 4) ''sink_%u''
     (Some (RequestPad 4 ''sink_%u'' 0)),
     PadLink (Some (StaticPad 7 ''src''))
     (Some (RequestPad 4 ''sink_%u'' 0)) True,
     ElementLink [4, 5] True,
     FactoryMake ''queue'' (Some ''queue-fullhd'') (Some 8),
     FactoryMake ''videoconvert'' None (Some 9),
     FactoryMake ''videoscale'' (Some ''scale-fullhd'') (Some 10),
     FactoryMake ''videorate'' (Some ''rate-fullhd'') (Some 11),
     FactoryMake ''capsfilter'' None (Some 12),
     FactoryMake ''openh264enc'' (Some ''encoder-fullhd'') (Some 13),
     FactoryMake ''h264parse'' (Some ''parse-fullhd'') (Some 14),
     FactoryMake ''dashsink'' (Some ''dash-sink-fullhd'') (Some 15),
     BinAdd (Some 1) [8, 9, 10, 11, 12, 13, 14, 15],
     ElementLink [8, 9, 10, 11, 12, 13, 14, 15] True,
     GetRequestPad (Some 5) ''src_%u'' (Some (RequestPad 5 ''src_%u'' 1)),
     GetStaticPad 8 ''sink'' (Some (StaticPad 8 ''sink'')),
     SyncStateWithParent 8, SyncStateWithParent 9, SyncStateWithParent 10,
     SyncStateWithParent 11, SyncStateWithParent 12,
     SyncStateWithParent 13, SyncStateWithParent 14,
     SyncStateWithParent 15,
     PadLink (Some (RequestPad 5 ''src_%u'' 1))
     (Some (StaticPad 8 ''sink'')) True,
     FactoryMake ''queue'' (Some ''queue-hd'') (Some 16),
     FactoryMake ''videoconvert'' None (Some 17),
     FactoryMake ''videoscale'' (Some ''scale-hd'') (Some 18),
     FactoryMake ''videorate'' (Some ''rate-hd'') (Some 19),
     FactoryMake ''capsfilter'' None (Some 20),
     FactoryMake ''openh264enc'' (Some ''encoder-hd'') (Some 21),
     FactoryMake ''h264parse'' (Some ''parse-hd'') (Some 22),
     FactoryMake ''dashsink'' (Some ''dash-sink-hd'') (Some 23),
     BinAdd (Some 1) [16, 17, 18, 19, 20, 21, 22, 23],
     ElementLink [16, 17, 18, 19, 20, 21, 22, 23] True,
     GetRequestPad (Some 5) ''src_%u'' (Some (RequestPad 5 ''src_%u'' 2)),
     GetStaticPad 16 ''sink'' (Some (StaticPad 16 ''sink'')),
     SyncStateWithParent 16, SyncStateWithParent 17,
     SyncStateWithParent 18, SyncStateWithParent 19,
     SyncStateWithParent 20, SyncStateWithParent 21,
     SyncStateWithParent 22, SyncStateWithParent 23,
     PadLink (Some (RequestPad 5 ''src_%u'' 2))
     (Some (StaticPad 16 ''sink'')) True,
     GetBus 1, SourceAdd 1 BusWatch, SignalConnect (Some 2) ''pad-added'',
     SignalConnect (Some 2) ''no-more-pads'',
     SetState (Some 1) GST_STATE_PLAYING, MainLoopNew, MainLoopRun]\<rparr>"
  by (simp add: started_def run del: One_nat_def)

lemmas scenario = session_def live_pad_added_def video_rtp_caps_def started_state run

section \<open>Switching without a stored pad\<close>

text \<open>
  C10. When the selector pad of the requested branch has not been stored on the selector
  (the live pad before any decode chain was built, the fallback pad before the fallback
  branch was connected), the switch does nothing: the streamer, the engine and the main
  loop are left exactly as they were.
\<close>

theorem switch_without_stored_pad:
  "(rtsp_pad s = None \<longrightarrow> switch_to_rtsp_source s = s)
   \<and> (dummy_pad s = None \<longrightarrow> switch_to_dummy_source s = s)"
  by (simp add: rtsp_pad_def dummy_pad_def switch_to_rtsp_source_def switch_to_dummy_source_def)

theorem switch_without_stored_pad_witness:
  "rtsp_pad (session []) = None
   \<and> switch_to_rtsp_source (session []) = session []
   \<and> dummy_pad (RTSPDashStreamer ''rtsp://camera:554/stream'' ''/tmp/dash-output'') = None
   \<and> switch_to_dummy_source (RTSPDashStreamer ''rtsp://camera:554/stream'' ''/tmp/dash-output'')
       = RTSPDashStreamer ''rtsp://camera:554/stream'' ''/tmp/dash-output''"
proof -
  have live: "rtsp_pad (session []) = None"
    by (simp add: rtsp_pad_def session_def started_state g_object_get_data_def del: One_nat_def)
  have fallback: "dummy_pad (RTSPDashStreamer ''rtsp://camera:554/stream'' ''/tmp/dash-output'') = None"
    by (simp add: dummy_pad_def RTSPDashStreamer_def g_object_get_data_def)
  from live fallback
    switch_without_stored_pad [of "session []"]
    switch_without_stored_pad [of "RTSPDashStreamer ''rtsp://camera:554/stream'' ''/tmp/dash-output''"]
  show ?thesis by simp
qed

section \<open>Switching to the active branch\<close>

lemma g_object_set_same:
  "props s (e, key) = Some v \<Longrightarrow> g_object_set e key v s = s"
  by (simp add: g_object_set_def fun_upd_idem)

text \<open>
  C6. Switching to the branch whose pad is already the selector's active pad changes
  nothing: the switch writes the selector's \<open>active-pad\<close> property again with the value it
  already holds, so the state afterwards is the state before, with the same active pad,
  the same links between pads and the same event sources. This holds for the fallback
  and for the live branch.
\<close>

theorem switch_to_active_is_noop:
  "(dummy_pad s \<noteq> None \<and> active_pad s = dummy_pad s \<longrightarrow> switch_to_dummy_source s = s)
   \<and> (rtsp_pad s \<noteq> None \<and> active_pad s = rtsp_pad s \<longrightarrow> switch_to_rtsp_source s = s)"
  by (auto simp: dummy_pad_def rtsp_pad_def active_pad_def switch_to_dummy_source_def
        switch_to_rtsp_source_def g_object_get_data_def g_object_set_same
      split: option.splits gvalue.splits)

lemma live_scenario_eval:
  "(let s = session [live_pad_added, TimerFire 2]
    in (rtsp_pad s, active_pad s, dummy_pad s, loop_is_running s, is_rtsp_connected s, sources s,
        FactoryMake ''rtph264depay'' (Some ''rtsp-depay'') (Some 24) \<in> set (calls s)))
   = (Some (RequestPad 4 ''sink_%u'' 3), Some (RequestPad 4 ''sink_%u'' 3),
      Some (RequestPad 4 ''sink_%u'' 0), True, False, [(1, BusWatch)], True)"
  by (simp add: scenario rtsp_pad_def active_pad_def dummy_pad_def del: One_nat_def
        cong: let_weak_cong)

lemma live_scenario:
  "rtsp_pad (session [live_pad_added, TimerFire 2]) = Some (RequestPad 4 ''sink_%u'' 3)
   \<and> active_pad (session [live_pad_added, TimerFire 2]) = Some (RequestPad 4 ''sink_%u'' 3)
   \<and> dummy_pad (session [live_pad_added, TimerFire 2]) = Some (RequestPad 4 ''sink_%u'' 0)
   \<and> loop_is_running (session [live_pad_added, TimerFire 2])
   \<and> \<not> is_rtsp_connected (session [live_pad_added, TimerFire 2])
   \<and> sources (session [live_pad_added, TimerFire 2]) = [(1, BusWatch)]
   \<and> FactoryMake ''rtph264depay'' (Some ''rtsp-depay'') (Some 24)
       \<in> set (calls (session [live_pad_added, TimerFire 2]))"
  using live_scenario_eval by (simp add: Let_def)

theorem switch_to_active_is_noop_witness:
  "dummy_pad (session []) \<noteq> None \<and> active_pad (session []) = dummy_pad (session [])
   \<and> switch_to_dummy_source (session []) = session []
   \<and> rtsp_pad (session [live_pad_added, TimerFire 2]) \<noteq> None
   \<and> active_pad (session [live_pad_added, TimerFire 2]) = rtsp_pad (session [live_pad_added, TimerFire 2])
   \<and> switch_to_rtsp_source (session [live_pad_added, TimerFire 2])
       = session [live_pad_added, TimerFire 2]"
proof -
  have fallback: "dummy_pad (session []) = Some (RequestPad 4 ''sink_%u'' 0)
      \<and> active_pad (session []) = Some (RequestPad 4 ''sink_%u'' 0)"
    by (simp add: dummy_pad_def active_pad_def session_def started_state g_object_get_data_def
          del: One_nat_def)
  from fallback live_scenario
    switch_to_active_is_noop [of "session []"]
    switch_to_active_is_noop [of "session [live_pad_added, TimerFire 2]"]
  show ?thesis by simp
qed

section \<open>Event sources\<close>

lemma map_of_remove_other:
  "k \<noteq> i \<Longrightarrow> map_of (filter (\<lambda>(j, _). j \<noteq> i) xs) k = map_of xs k"
  by (induction xs) auto

lemma timers_removed:
  assumes "filter (is_timer cb) xs = [(i, src)]"
  shows "filter (is_timer cb) (filter (\<lambda>(j, _). j \<noteq> i) xs) = []"
proof -
  have "x = (i, src)" if "x \<in> set xs" "is_timer cb x" for x
  proof -
    from that have "x \<in> set (filter (is_timer cb) xs)" by simp
    with assms show ?thesis by simp
  qed
  then show ?thesis by (auto simp: filter_empty_conv)
qed

lemma timers_kept:
  assumes "\<not> is_timer cb (i, src)" "(i, src) \<in> set xs" "distinct (map fst xs)"
  shows "filter (is_timer cb) (filter (\<lambda>(j, _). j \<noteq> i) xs) = filter (is_timer cb) xs"
proof -
  have "fst x \<noteq> i" if "x \<in> set xs" "is_timer cb x" for x
  proof
    assume "fst x = i"
    with that(1) assms(2,3) have "x = (i, src)"
      by (metis eq_key_imp_eq_value prod.collapse)
    with that(2) assms(1) show False by simp
  qed
  then have "filter (\<lambda>x. (case x of (j, _) \<Rightarrow> j \<noteq> i) \<and> is_timer cb x) xs
      = filter (is_timer cb) xs"
    by (intro filter_cong) (force simp: case_prod_unfold)+
  then show ?thesis by (simp add: filter_filter)
qed

lemma fresh_id:
  "list_all (\<lambda>x. 0 < fst x \<and> fst x < (n::nat)) xs \<Longrightarrow> n \<notin> fst ` set xs"
  by (auto simp: list_all_iff)

lemma ids_bounded_remove:
  "list_all (\<lambda>x. 0 < fst x \<and> fst x < (n::nat)) xs
   \<Longrightarrow> list_all (\<lambda>x. 0 < fst x \<and> fst x < n) (filter (\<lambda>(j, _). j \<noteq> i) xs)"
  by (auto simp: list_all_iff)

lemma ids_bounded_mono:
  "list_all (\<lambda>x. 0 < fst x \<and> fst x < (n::nat)) xs
   \<Longrightarrow> list_all (\<lambda>x. 0 < fst x \<and> fst x < Suc n) xs"
  by (induction xs) auto

lemma schedule_rtsp_reconnect_effect:
  "sources (schedule_rtsp_reconnect s)
     = (if 0 < reconnect_timeout_id s
        then filter (\<lambda>(j, _). j \<noteq> reconnect_timeout_id s) (sources s)
        else sources s) @ [(next_source s, Timeout 5 Reconnect_rtsp_source)]
   \<and> next_source (schedule_rtsp_reconnect s) = next_source s + 1
   \<and> reconnect_timeout_id (schedule_rtsp_reconnect s) = next_source s
   \<and> bus_watch_id (schedule_rtsp_reconnect s) = bus_watch_id s
   \<and> pipeline (schedule_rtsp_reconnect s) = pipeline s
   \<and> bus (schedule_rtsp_reconnect s) = bus s
   \<and> rtsp_src (schedule_rtsp_reconnect s) = rtsp_src s
   \<and> input_selector (schedule_rtsp_reconnect s) = input_selector s
   \<and> loop (schedule_rtsp_reconnect s) = loop s
   \<and> loop_is_running (schedule_rtsp_reconnect s) = loop_is_running s
   \<and> is_rtsp_connected (schedule_rtsp_reconnect s) = is_rtsp_connected s
   \<and> props (schedule_rtsp_reconnect s) = props s
   \<and> object_data (schedule_rtsp_reconnect s) = object_data s"
  by (simp add: schedule_rtsp_reconnect_def g_source_remove_def g_timeout_add_seconds_def
        g_source_attach_def record_call_def Let_def)

lemma bus_watch_not_timer:
  assumes "timers_tracked s" "0 < reconnect_timeout_id s"
  shows "bus_watch_id s \<noteq> reconnect_timeout_id s"
proof
  assume eq: "bus_watch_id s = reconnect_timeout_id s"
  from assms have "(reconnect_timeout_id s, Timeout 5 Reconnect_rtsp_source)
      \<in> set (filter (is_timer Reconnect_rtsp_source) (sources s))"
    by (simp add: timers_tracked_def pending_def)
  then have "(reconnect_timeout_id s, Timeout 5 Reconnect_rtsp_source) \<in> set (sources s)"
    by simp
  moreover from assms have "distinct (map fst (sources s))"
    by (simp add: timers_tracked_def)
  ultimately have "map_of (sources s) (reconnect_timeout_id s) = Some (Timeout 5 Reconnect_rtsp_source)"
    by simp
  with assms(1) eq show False by (simp add: timers_tracked_def)
qed

lemma schedule_rtsp_reconnect_tracked:
  assumes "timers_tracked s"
  shows "timers_tracked (schedule_rtsp_reconnect s)
         \<and> pending Reconnect_rtsp_source (schedule_rtsp_reconnect s)
             = [(next_source s, Timeout 5 Reconnect_rtsp_source)]"
proof (cases "0 < reconnect_timeout_id s")
  case True
  with assms have one: "filter (is_timer Reconnect_rtsp_source) (sources s)
      = [(reconnect_timeout_id s, Timeout 5 Reconnect_rtsp_source)]"
    by (simp add: timers_tracked_def pending_def)
  note gone = timers_removed [OF one]
  from assms True have other: "bus_watch_id s \<noteq> reconnect_timeout_id s"
    by (rule bus_watch_not_timer)
  from assms True gone other show ?thesis
    by (simp add: timers_tracked_def pending_def schedule_rtsp_reconnect_effect
          distinct_map_filter fresh_id ids_bounded_remove ids_bounded_mono is_timer_def
          map_of_remove_other map_add_def list_all_iff)
      (auto simp: list_all_iff)
next
  case False
  with assms show ?thesis
    by (simp add: timers_tracked_def pending_def schedule_rtsp_reconnect_effect
          fresh_id ids_bounded_mono is_timer_def map_add_def list_all_iff)
      (auto simp: list_all_iff)
qed

lemma timers_tracked_same:
  assumes "timers_tracked s" "sources s' = sources s" "next_source s' = next_source s"
    "bus_watch_id s' = bus_watch_id s" "reconnect_timeout_id s' = reconnect_timeout_id s"
  shows "timers_tracked s'"
  using assms by (simp add: timers_tracked_def pending_def)

lemma timers_tracked_add_switch:
  assumes "timers_tracked s"
    "sources s' = sources s @ [(next_source s, Timeout n Switch_to_rtsp_delayed)]"
    "next_source s' = next_source s + 1"
    "bus_watch_id s' = bus_watch_id s" "reconnect_timeout_id s' = reconnect_timeout_id s"
  shows "timers_tracked s'"
  using assms
  by (simp add: timers_tracked_def pending_def fresh_id ids_bounded_mono is_timer_def map_add_def)

lemma timers_tracked_remove_switch:
  assumes "timers_tracked s" "map_of (sources s) i = Some (Timeout n Switch_to_rtsp_delayed)"
    "sources s' = filter (\<lambda>(j, _). j \<noteq> i) (sources s)"
    "next_source s' = next_source s"
    "bus_watch_id s' = bus_watch_id s" "reconnect_timeout_id s' = reconnect_timeout_id s"
  shows "timers_tracked s'"
proof -
  from assms(2) have mem: "(i, Timeout n Switch_to_rtsp_delayed) \<in> set (sources s)"
    by (rule map_of_SomeD)
  from assms(1) have dist: "distinct (map fst (sources s))"
    by (simp add: timers_tracked_def)
  have "\<not> is_timer Reconnect_rtsp_source (i, Timeout n Switch_to_rtsp_delayed)"
    by (simp add: is_timer_def)
  from timers_kept [OF this mem dist]
  have kept: "filter (is_timer Reconnect_rtsp_source) (filter (\<lambda>(j, _). j \<noteq> i) (sources s))
      = filter (is_timer Reconnect_rtsp_source) (sources s)" .
  from assms(1,2) have "bus_watch_id s \<noteq> i"
    by (auto simp: timers_tracked_def)
  with assms kept show ?thesis
    by (simp add: timers_tracked_def pending_def distinct_map_filter ids_bounded_remove
          map_of_remove_other)
qed

lemma timers_tracked_remove_reconnect:
  assumes "timers_tracked s" "map_of (sources s) i = Some (Timeout n Reconnect_rtsp_source)"
    "sources s' = filter (\<lambda>(j, _). j \<noteq> i) (sources s)"
    "next_source s' = next_source s"
    "bus_watch_id s' = bus_watch_id s" "reconnect_timeout_id s' = 0"
  shows "timers_tracked s' \<and> pending Reconnect_rtsp_source s' = []
         \<and> i = reconnect_timeout_id s \<and> n = 5"
proof -
  from assms(2) have "(i, Timeout n Reconnect_rtsp_source) \<in> set (sources s)"
    by (rule map_of_SomeD)
  then have "(i, Timeout n Reconnect_rtsp_source)
      \<in> set (filter (is_timer Reconnect_rtsp_source) (sources s))"
    by (simp add: is_timer_def)
  with assms(1) have one: "filter (is_timer Reconnect_rtsp_source) (sources s)
      = [(i, Timeout n Reconnect_rtsp_source)]" and which: "i = reconnect_timeout_id s" "n = 5"
    by (auto simp: timers_tracked_def pending_def split: if_splits)
  note gone = timers_removed [OF one]
  from assms(1,2) have "bus_watch_id s \<noteq> i"
    by (auto simp: timers_tracked_def)
  with assms gone which show ?thesis
    by (simp add: timers_tracked_def pending_def distinct_map_filter ids_bounded_remove
          map_of_remove_other)
qed

lemma switch_frame:
  "sources (switch_to_dummy_source s) = sources s
   \<and> next_source (switch_to_dummy_source s) = next_source s
   \<and> bus_watch_id (switch_to_dummy_source s) = bus_watch_id s
   \<and> reconnect_timeout_id (switch_to_dummy_source s) = reconnect_timeout_id s
   \<and> pipeline (switch_to_dummy_source s) = pipeline s
   \<and> bus (switch_to_dummy_source s) = bus s
   \<and> rtsp_src (switch_to_dummy_source s) = rtsp_src s
   \<and> input_selector (switch_to_dummy_source s) = input_selector s
   \<and> loop (switch_to_dummy_source s) = loop s
   \<and> loop_is_running (switch_to_dummy_source s) = loop_is_running s
   \<and> is_rtsp_connected (switch_to_dummy_source s) = is_rtsp_connected s
   \<and> object_data (switch_to_dummy_source s) = object_data s
   \<and> calls (switch_to_dummy_source s) = calls s
   \<and> sources (switch_to_rtsp_source s) = sources s
   \<and> next_source (switch_to_rtsp_source s) = next_source s
   \<and> bus_watch_id (switch_to_rtsp_source s) = bus_watch_id s
   \<and> reconnect_timeout_id (switch_to_rtsp_source s) = reconnect_timeout_id s
   \<and> pipeline (switch_to_rtsp_source s) = pipeline s
   \<and> bus (switch_to_rtsp_source s) = bus s
   \<and> rtsp_src (switch_to_rtsp_source s) = rtsp_src s
   \<and> input_selector (switch_to_rtsp_source s) = input_selector s
   \<and> loop (switch_to_rtsp_source s) = loop s
   \<and> loop_is_running (switch_to_rtsp_source s) = loop_is_running s
   \<and> is_rtsp_connected (switch_to_rtsp_source s) = is_rtsp_connected s
   \<and> object_data (switch_to_rtsp_source s) = object_data s
   \<and> calls (switch_to_rtsp_source s) = calls s"
  by (simp add: switch_to_dummy_source_def switch_to_rtsp_source_def g_object_set_def
      split: option.splits)

lemma stop_frame:
  "sources (stop s) = sources s
   \<and> next_source (stop s) = next_source s
   \<and> bus_watch_id (stop s) = bus_watch_id s
   \<and> reconnect_timeout_id (stop s) = reconnect_timeout_id s
   \<and> pipeline (stop s) = pipeline s
   \<and> bus (stop s) = bus s
   \<and> rtsp_src (stop s) = rtsp_src s
   \<and> input_selector (stop s) = input_selector s
   \<and> loop (stop s) = loop s
   \<and> is_rtsp_connected (stop s) = is_rtsp_connected s
   \<and> object_data (stop s) = object_data s
   \<and> props (stop s) = props s
   \<and> loop_is_running (stop s) = (loop_is_running s \<and> \<not> loop s)"
  by (simp add: stop_def g_main_loop_quit_def record_call_def)

lemma reconnect_rtsp_source_effect:
  "fst (reconnect_rtsp_source s) = False
   \<and> calls (snd (reconnect_rtsp_source s))
       = calls s @ [SetState (rtsp_src s) GST_STATE_NULL, SetState (rtsp_src s) GST_STATE_PLAYING]
   \<and> reconnect_timeout_id (snd (reconnect_rtsp_source s)) = 0
   \<and> sources (snd (reconnect_rtsp_source s)) = sources s
   \<and> next_source (snd (reconnect_rtsp_source s)) = next_source s
   \<and> bus_watch_id (snd (reconnect_rtsp_source s)) = bus_watch_id s
   \<and> pipeline (snd (reconnect_rtsp_source s)) = pipeline s
   \<and> bus (snd (reconnect_rtsp_source s)) = bus s
   \<and> rtsp_src (snd (reconnect_rtsp_source s)) = rtsp_src s
   \<and> input_selector (snd (reconnect_rtsp_source s)) = input_selector s
   \<and> loop (snd (reconnect_rtsp_source s)) = loop s
   \<and> loop_is_running (snd (reconnect_rtsp_source s)) = loop_is_running s
   \<and> is_rtsp_connected (snd (reconnect_rtsp_source s)) = is_rtsp_connected s
   \<and> object_data (snd (reconnect_rtsp_source s)) = object_data s
   \<and> props (snd (reconnect_rtsp_source s)) = props s"
  by (simp add: reconnect_rtsp_source_def gst_element_set_state_def record_call_def Let_def)

lemma create_rtsp_decode_chain_frame:
  "pipeline (create_rtsp_decode_chain r pad s) = pipeline s
   \<and> rtsp_src (create_rtsp_decode_chain r pad s) = rtsp_src s
   \<and> input_selector (create_rtsp_decode_chain r pad s) = input_selector s
   \<and> bus (create_rtsp_decode_chain r pad s) = bus s
   \<and> loop (create_rtsp_decode_chain r pad s) = loop s
   \<and> bus_watch_id (create_rtsp_decode_chain r pad s) = bus_watch_id s
   \<and> reconnect_timeout_id (create_rtsp_decode_chain r pad s) = reconnect_timeout_id s
   \<and> is_rtsp_connected (create_rtsp_decode_chain r pad s) = is_rtsp_connected s
   \<and> loop_is_running (create_rtsp_decode_chain r pad s) = loop_is_running s
   \<and> props (create_rtsp_decode_chain r pad s) (e, ''active-pad'') = props s (e, ''active-pad'')
   \<and> object_data (create_rtsp_decode_chain r pad s) (e, ''dummy-pad'')
       = object_data s (e, ''dummy-pad'')
   \<and> sources (create_rtsp_decode_chain r pad s)
       = sources s @ (if chain_ready r then [(next_source s, Timeout 1 Switch_to_rtsp_delayed)]
                      else [])
   \<and> next_source (create_rtsp_decode_chain r pad s)
       = (if chain_ready r then next_source s + 1 else next_source s)"
proof (cases s)
  case (fields pl rs ds sel t fh hq b l bw rt uri out conn lk ne np pr od srcs ns run cs)
  show ?thesis
  proof (cases "depay_ok r \<and> parse_ok r \<and> decode_ok r \<and> convert_ok r \<and> rtsp_caps_ok r
                \<and> chain_link_ok r")
    case True
    then show ?thesis
      unfolding fields
      by (cases sel; cases "chain_state r = GST_STATE_CHANGE_SUCCESS";
          simp add: create_rtsp_decode_chain_def chain_ready_def exec_rules lib_defs Let_def
            split del: if_split)
  next
    case False
    then consider "\<not> depay_ok r"
      | "depay_ok r" "\<not> parse_ok r"
      | "depay_ok r" "parse_ok r" "\<not> decode_ok r"
      | "depay_ok r" "parse_ok r" "decode_ok r" "\<not> convert_ok r"
      | "depay_ok r" "parse_ok r" "decode_ok r" "convert_ok r" "\<not> rtsp_caps_ok r"
      | "depay_ok r" "parse_ok r" "decode_ok r" "convert_ok r" "rtsp_caps_ok r"
        "\<not> chain_link_ok r"
      by blast
    then show ?thesis
      unfolding fields
      by cases
        (simp_all add: create_rtsp_decode_chain_def chain_ready_def exec_rules lib_defs Let_def
           split del: if_split)
  qed
qed

lemma connect_rtsp_pad_cases:
  "connect_rtsp_pad r pad current_caps query_caps s = s
   \<or> connect_rtsp_pad r pad current_caps query_caps s = create_rtsp_decode_chain r pad s"
  by (simp add: connect_rtsp_pad_def Let_def split: option.splits)

lemma handle_bus_message_keeps [simp]: "fst (handle_bus_message msg s)"
  by (simp add: handle_bus_message_def split: message.splits)

lemma fire_cases:
  "fire i s = s
   \<or> (\<exists>n. map_of (sources s) i = Some (Timeout n Reconnect_rtsp_source)
          \<and> fire i s = g_source_destroy i (snd (reconnect_rtsp_source s)))
   \<or> (\<exists>n. map_of (sources s) i = Some (Timeout n Switch_to_rtsp_delayed)
          \<and> fire i s = g_source_destroy i (switch_to_rtsp_source s))"
  by (simp add: fire_def switch_to_rtsp_delayed_def reconnect_rtsp_source_effect
        case_prod_unfold
      split: option.splits source.splits callback.splits)

lemma g_source_destroy_frame:
  "sources (g_source_destroy i s) = filter (\<lambda>(j, _). j \<noteq> i) (sources s)
   \<and> next_source (g_source_destroy i s) = next_source s
   \<and> bus_watch_id (g_source_destroy i s) = bus_watch_id s
   \<and> reconnect_timeout_id (g_source_destroy i s) = reconnect_timeout_id s
   \<and> pipeline (g_source_destroy i s) = pipeline s
   \<and> bus (g_source_destroy i s) = bus s
   \<and> rtsp_src (g_source_destroy i s) = rtsp_src s
   \<and> input_selector (g_source_destroy i s) = input_selector s
   \<and> loop (g_source_destroy i s) = loop s
   \<and> loop_is_running (g_source_destroy i s) = loop_is_running s
   \<and> is_rtsp_connected (g_source_destroy i s) = is_rtsp_connected s
   \<and> object_data (g_source_destroy i s) = object_data s
   \<and> props (g_source_destroy i s) = props s
   \<and> calls (g_source_destroy i s) = calls s"
  by (simp add: g_source_destroy_def)

lemma fire_tracked:
  assumes "timers_tracked s"
  shows "timers_tracked (fire i s)"
  using fire_cases [of i s]
proof (elim disjE exE conjE)
  assume "fire i s = s"
  with assms show ?thesis by simp
next
  fix n
  assume "map_of (sources s) i = Some (Timeout n Reconnect_rtsp_source)"
    and "fire i s = g_source_destroy i (snd (reconnect_rtsp_source s))"
  with assms show ?thesis
    by (simp add: timers_tracked_remove_reconnect g_source_destroy_frame
          reconnect_rtsp_source_effect)
next
  fix n
  assume "map_of (sources s) i = Some (Timeout n Switch_to_rtsp_delayed)"
    and "fire i s = g_source_destroy i (switch_to_rtsp_source s)"
  with assms show ?thesis
    by (simp add: timers_tracked_remove_switch [where i = i and n = n]
          g_source_destroy_frame switch_frame)
qed

lemma handle_bus_message_tracked:
  assumes "timers_tracked s"
  shows "timers_tracked (snd (handle_bus_message msg s))"
proof -
  have a: "timers_tracked (switch_to_dummy_source s)"
    using assms by (rule timers_tracked_same) (simp_all add: switch_frame)
  have b: "timers_tracked (switch_to_dummy_source (s\<lparr>is_rtsp_connected := False\<rparr>))"
    using assms by (rule timers_tracked_same) (simp_all add: switch_frame)
  have c: "timers_tracked (switch_to_rtsp_source (s\<lparr>is_rtsp_connected := True\<rparr>))"
    using assms by (rule timers_tracked_same) (simp_all add: switch_frame)
  have d: "timers_tracked (stop s)"
    using assms by (rule timers_tracked_same) (simp_all add: stop_frame)
  from assms a b c d show ?thesis
    by (simp add: handle_bus_message_def schedule_rtsp_reconnect_tracked split: message.splits)
qed

lemma create_rtsp_decode_chain_tracked:
  assumes "timers_tracked s"
  shows "timers_tracked (create_rtsp_decode_chain r pad s)"
proof (cases "chain_ready r")
  case True
  with create_rtsp_decode_chain_frame [of r pad s undefined] assms show ?thesis
    by (auto intro: timers_tracked_add_switch)
next
  case False
  with create_rtsp_decode_chain_frame [of r pad s undefined] assms show ?thesis
    by (auto intro: timers_tracked_same)
qed

lemma dispatch_tracked:
  assumes "timers_tracked s"
  shows "timers_tracked (dispatch ev s)"
proof (cases ev)
  case (BusMessage msg)
  with assms handle_bus_message_tracked [OF assms, of msg] show ?thesis
    by (simp add: dispatch_def case_prod_unfold)
next
  case (PadAdded r pad current_caps query_caps)
  with assms connect_rtsp_pad_cases [of r pad current_caps query_caps s] show ?thesis
    by (auto simp: dispatch_def create_rtsp_decode_chain_tracked)
next
  case (TimerFire i)
  with assms show ?thesis by (simp add: dispatch_def fire_tracked)
next
  case Signal
  with assms show ?thesis
    by (auto simp: dispatch_def stop_frame intro: timers_tracked_same)
qed

lemma iterate_tracked:
  "timers_tracked s \<Longrightarrow> timers_tracked (iterate evs s)"
  by (induction evs arbitrary: s) (simp_all add: dispatch_tracked)

section \<open>The reconnect timer\<close>

lemma started_facts:
  "timers_tracked (started uri output)
   \<and> pipeline (started uri output) = Some 1
   \<and> bus (started uri output)
   \<and> bus_watch_id (started uri output) = 1
   \<and> rtsp_src (started uri output) = Some 2
   \<and> input_selector (started uri output) = Some 4
   \<and> loop (started uri output)
   \<and> loop_is_running (started uri output)
   \<and> \<not> is_rtsp_connected (started uri output)
   \<and> dummy_pad (started uri output) = Some (RequestPad 4 ''sink_%u'' 0)
   \<and> active_pad (started uri output) = Some (RequestPad 4 ''sink_%u'' 0)
   \<and> rtsp_pad (started uri output) = None
   \<and> sources (started uri output) = [(1, BusWatch)]"
  by (simp add: started_state timers_tracked_def pending_def is_timer_def dummy_pad_def
        rtsp_pad_def active_pad_def g_object_get_data_def del: One_nat_def)

lemma reachable_tracked: "timers_tracked (iterate evs (started uri output))"
  by (simp add: iterate_tracked started_facts)

lemma state_value_below:
  "x \<noteq> GST_STATE_PLAYING \<Longrightarrow> state_value x < 4"
  by (cases x) simp_all

lemma source_lost_dispatch:
  assumes "timers_tracked s" "source_lost s ev"
  shows "pending Reconnect_rtsp_source (dispatch ev s)
           = [(next_source s, Timeout 5 Reconnect_rtsp_source)]
         \<and> loop_is_running (dispatch ev s) = loop_is_running s
         \<and> rtsp_src (dispatch ev s) = rtsp_src s"
proof -
  from assms(1) have watch: "map_of (sources s) (bus_watch_id s) = Some BusWatch"
    by (simp add: timers_tracked_def)
  have a: "timers_tracked (switch_to_dummy_source s)"
    using assms(1) by (rule timers_tracked_same) (simp_all add: switch_frame)
  have b: "timers_tracked (switch_to_dummy_source (s\<lparr>is_rtsp_connected := False\<rparr>))"
    using assms(1) by (rule timers_tracked_same) (simp_all add: switch_frame)
  from assms(2) watch a b show ?thesis
    by (cases ev)
      (auto simp: source_lost_def dispatch_def handle_bus_message_def
         schedule_rtsp_reconnect_tracked schedule_rtsp_reconnect_effect switch_frame
         state_value_below
         split: message.splits)
qed

lemma source_lost_same: "rtsp_src s' = rtsp_src s \<Longrightarrow> source_lost s' = source_lost s"
  by (auto simp: source_lost_def fun_eq_iff split: event.splits message.splits)

lemma source_lost_repeated:
  assumes "timers_tracked s" "loop_is_running s" "list_all (source_lost s) errs"
    "length (pending Reconnect_rtsp_source s) = 1"
  shows "length (pending Reconnect_rtsp_source (iterate errs s)) = 1"
  using assms
proof (induction errs arbitrary: s)
  case Nil
  then show ?case by simp
next
  case (Cons ev errs)
  from Cons.prems have lost: "source_lost s ev" by simp
  note step = source_lost_dispatch [OF Cons.prems(1) lost]
  have "length (pending Reconnect_rtsp_source (iterate errs (dispatch ev s))) = 1"
  proof (rule Cons.IH)
    show "timers_tracked (dispatch ev s)" using Cons.prems(1) by (rule dispatch_tracked)
    show "loop_is_running (dispatch ev s)" using step Cons.prems(2) by simp
    show "list_all (source_lost (dispatch ev s)) errs"
      using step Cons.prems(3) source_lost_same [of "dispatch ev s" s] by simp
    show "length (pending Reconnect_rtsp_source (dispatch ev s)) = 1" using step by simp
  qed
  with Cons.prems(2) show ?case by simp
qed

text \<open>
  C3. At most one reconnect timer is pending at any time. In every state \<open>s\<close> a session
  reaches, whatever the events dispatched so far: at most one reconnect timer is pending;
  a call of \<open>schedule_rtsp_reconnect\<close> leaves exactly one pending reconnect timer, a new
  one under an id no source of \<open>s\<close> has, so that the timer pending before is gone; and
  after any non-empty sequence of events reporting the live source lost, dispatched while
  the loop runs, exactly one reconnect timer is pending.
\<close>

theorem single_reconnect_timer:
  assumes "s = iterate evs (started uri output)"
  shows "length (pending Reconnect_rtsp_source s) \<le> 1
         \<and> pending Reconnect_rtsp_source (schedule_rtsp_reconnect s)
             = [(next_source s, Timeout 5 Reconnect_rtsp_source)]
         \<and> next_source s \<notin> fst ` set (sources s)
         \<and> (loop_is_running s \<and> errs \<noteq> [] \<and> list_all (source_lost s) errs
              \<longrightarrow> length (pending Reconnect_rtsp_source (iterate errs s)) = 1)"
proof -
  from assms have tracked: "timers_tracked s" by (simp add: reachable_tracked)
  then have "length (pending Reconnect_rtsp_source s) \<le> 1"
    by (simp add: timers_tracked_def)
  moreover from tracked have "next_source s \<notin> fst ` set (sources s)"
    by (simp add: timers_tracked_def fresh_id)
  moreover have "length (pending Reconnect_rtsp_source (iterate errs s)) = 1"
    if run: "loop_is_running s" and some: "errs \<noteq> []" and lost: "list_all (source_lost s) errs"
  proof -
    from some obtain ev rest where errs: "errs = ev # rest" by (cases errs) auto
    with lost have first: "source_lost s ev" by simp
    note step = source_lost_dispatch [OF tracked first]
    have "length (pending Reconnect_rtsp_source (iterate rest (dispatch ev s))) = 1"
    proof (rule source_lost_repeated)
      show "timers_tracked (dispatch ev s)" using tracked by (rule dispatch_tracked)
      show "loop_is_running (dispatch ev s)" using step run by simp
      show "list_all (source_lost (dispatch ev s)) rest"
        using step lost errs source_lost_same [of "dispatch ev s" s] by simp
      show "length (pending Reconnect_rtsp_source (dispatch ev s)) = 1" using step by simp
    qed
    with run errs show ?thesis by simp
  qed
  ultimately show ?thesis
    using schedule_rtsp_reconnect_tracked [OF tracked] by blast
qed

lemma error_scenario_eval:
  "(let s = session [BusMessage (MsgError 2)]
    in (loop_is_running s, rtsp_src s, sources s, next_source s))
   = (True, Some 2, [(1, BusWatch), (2, Timeout 5 Reconnect_rtsp_source)], 3)"
  by (simp add: scenario del: One_nat_def cong: let_weak_cong)

lemma error_scenario:
  "loop_is_running (session [BusMessage (MsgError 2)])
   \<and> rtsp_src (session [BusMessage (MsgError 2)]) = Some 2
   \<and> sources (session [BusMessage (MsgError 2)])
       = [(1, BusWatch), (2, Timeout 5 Reconnect_rtsp_source)]
   \<and> next_source (session [BusMessage (MsgError 2)]) = 3"
  using error_scenario_eval by (simp add: Let_def)

theorem single_reconnect_timer_witness:
  "session [BusMessage (MsgError 2)]
     = iterate [BusMessage (MsgError 2)] (started ''rtsp://camera:554/stream'' ''/tmp/dash-output'')
   \<and> loop_is_running (session [BusMessage (MsgError 2)])
   \<and> [BusMessage (MsgError 2), BusMessage (MsgError 2)] \<noteq> []
   \<and> list_all (source_lost (session [BusMessage (MsgError 2)]))
        [BusMessage (MsgError 2), BusMessage (MsgError 2)]
   \<and> length (pending Reconnect_rtsp_source
        (iterate [BusMessage (MsgError 2), BusMessage (MsgError 2)]
           (session [BusMessage (MsgError 2)]))) = 1"
proof -
  have trace: "session [BusMessage (MsgError 2)]
     = iterate [BusMessage (MsgError 2)] (started ''rtsp://camera:554/stream'' ''/tmp/dash-output'')"
    by (simp only: session_def)
  have lost: "list_all (source_lost (session [BusMessage (MsgError 2)]))
        [BusMessage (MsgError 2), BusMessage (MsgError 2)]"
    using error_scenario by (simp add: source_lost_def)
  from trace lost error_scenario
    single_reconnect_timer [OF trace, of "[BusMessage (MsgError 2), BusMessage (MsgError 2)]"]
  show ?thesis by simp
qed

section \<open>What events keep\<close>

lemma keeps_setup_refl: "keeps_setup s s"
  by (simp add: keeps_setup_def)

lemma keeps_setup_trans: "keeps_setup s s' \<Longrightarrow> keeps_setup s' s'' \<Longrightarrow> keeps_setup s s''"
  by (simp add: keeps_setup_def)

lemma keeps_setupI:
  assumes "pipeline s' = pipeline s" "rtsp_src s' = rtsp_src s"
    "input_selector s' = input_selector s" "bus s' = bus s" "loop s' = loop s"
    "bus_watch_id s' = bus_watch_id s"
    "\<And>e. object_data s' (e, ''dummy-pad'') = object_data s (e, ''dummy-pad'')"
  shows "keeps_setup s s'"
  using assms by (simp add: keeps_setup_def dummy_pad_def g_object_get_data_def split: option.splits)

lemma handle_bus_message_keeps_setup: "keeps_setup s (snd (handle_bus_message msg s))"
  by (rule keeps_setupI)
    (simp_all add: handle_bus_message_def schedule_rtsp_reconnect_effect switch_frame stop_frame
       split: message.splits)

lemma fire_keeps_setup: "keeps_setup s (fire i s)"
  using fire_cases [of i s]
  by (auto intro!: keeps_setupI
      simp: g_source_destroy_frame reconnect_rtsp_source_effect switch_frame)

lemma create_rtsp_decode_chain_keeps_setup: "keeps_setup s (create_rtsp_decode_chain r pad s)"
  by (rule keeps_setupI) (simp_all add: create_rtsp_decode_chain_frame)

lemma dispatch_keeps_setup: "keeps_setup s (dispatch ev s)"
proof (cases ev)
  case (BusMessage msg)
  with handle_bus_message_keeps_setup [of s msg] show ?thesis
    by (simp add: dispatch_def case_prod_unfold keeps_setup_refl)
next
  case (PadAdded r pad current_caps query_caps)
  with connect_rtsp_pad_cases [of r pad current_caps query_caps s] show ?thesis
    by (auto simp: dispatch_def keeps_setup_refl create_rtsp_decode_chain_keeps_setup)
next
  case (TimerFire i)
  then show ?thesis by (simp add: dispatch_def fire_keeps_setup)
next
  case Signal
  then show ?thesis by (auto simp: dispatch_def stop_frame intro!: keeps_setupI)
qed

lemma iterate_keeps_setup: "keeps_setup s (iterate evs s)"
proof (induction evs arbitrary: s)
  case Nil
  show ?case by (simp add: keeps_setup_refl)
next
  case (Cons ev evs)
  from dispatch_keeps_setup [of s ev] Cons [of "dispatch ev s"] show ?case
    by (auto simp: keeps_setup_refl intro: keeps_setup_trans)
qed

lemma reachable_setup:
  assumes "s = iterate evs (started uri output)"
  shows "pipeline s = Some 1 \<and> rtsp_src s = Some 2 \<and> input_selector s = Some 4 \<and> bus s
         \<and> loop s \<and> bus_watch_id s = 1
         \<and> dummy_pad s = Some (RequestPad 4 ''sink_%u'' 0) \<and> timers_tracked s"
  using assms iterate_keeps_setup [of "started uri output" evs] started_facts [of uri "output"]
  by (simp add: keeps_setup_def reachable_tracked)

section \<open>Firing the reconnect timer\<close>

lemma not_lost_no_timer:
  assumes "timers_tracked t" "\<not> source_lost t ev" "pending Reconnect_rtsp_source t = []"
  shows "pending Reconnect_rtsp_source (dispatch ev t) = []"
proof (cases ev)
  case (BusMessage msg)
  with assms(2,3) show ?thesis
    by (cases msg)
      (auto simp: dispatch_def handle_bus_message_def source_lost_def pending_def
         switch_frame stop_frame)
next
  case (PadAdded r pad current_caps query_caps)
  with assms(3) connect_rtsp_pad_cases [of r pad current_caps query_caps t]
    create_rtsp_decode_chain_frame [of r pad t undefined]
  show ?thesis
    by (auto simp: dispatch_def pending_def is_timer_def)
next
  case (TimerFire i)
  with assms(1,3) fire_cases [of i t] show ?thesis
    by (auto simp: dispatch_def pending_def g_source_destroy_frame switch_frame
          reconnect_rtsp_source_effect filter_empty_conv)
next
  case Signal
  with assms(3) show ?thesis by (simp add: dispatch_def pending_def stop_frame)
qed

text \<open>
  C4. Let \<open>s\<close> be a state a session reaches in which a reconnect timer \<open>i\<close> is pending. Its
  interval is the fixed 5 seconds and it is the timer recorded in \<open>reconnect_timeout_id\<close>.
  Firing it sets the live source to the null state and then to playing, removes the timer
  (its callback does not ask to be called again) and leaves no reconnect timer pending.
  In every state \<open>t\<close> reached afterwards, an event makes a reconnect timer pending only if
  it reports the live source lost, and the timer it schedules has the same 5 second
  interval.
\<close>

theorem reconnect_timer_fires_once:
  assumes "s = iterate evs (started uri output)"
    and "(i, Timeout n Reconnect_rtsp_source) \<in> set (sources s)"
    and "t = iterate evs' (fire i s)"
  shows "n = 5 \<and> i = reconnect_timeout_id s
         \<and> calls (fire i s)
             = calls s @ [SetState (rtsp_src s) GST_STATE_NULL,
                          SetState (rtsp_src s) GST_STATE_PLAYING]
         \<and> rtsp_src s \<noteq> None
         \<and> pending Reconnect_rtsp_source (fire i s) = []
         \<and> i \<notin> fst ` set (sources (fire i s))
         \<and> (pending Reconnect_rtsp_source t = [] \<and> \<not> source_lost t ev
              \<longrightarrow> pending Reconnect_rtsp_source (dispatch ev t) = [])
         \<and> (source_lost t ev
              \<longrightarrow> pending Reconnect_rtsp_source (dispatch ev t)
                  = [(next_source t, Timeout 5 Reconnect_rtsp_source)])"
proof -
  note built = reachable_setup [OF assms(1)]
  from built have tracked: "timers_tracked s" by simp
  then have "distinct (map fst (sources s))" by (simp add: timers_tracked_def)
  with assms(2) have timer: "map_of (sources s) i = Some (Timeout n Reconnect_rtsp_source)"
    by simp
  then have fired: "fire i s = g_source_destroy i (snd (reconnect_rtsp_source s))"
    by (simp add: fire_def reconnect_rtsp_source_effect case_prod_unfold)
  have gone: "timers_tracked (fire i s) \<and> pending Reconnect_rtsp_source (fire i s) = []
      \<and> i = reconnect_timeout_id s \<and> n = 5"
    using tracked timer
    by (rule timers_tracked_remove_reconnect)
      (simp_all add: fired g_source_destroy_frame reconnect_rtsp_source_effect)
  from gone have "timers_tracked (fire i s)" by (rule conjunct1)
  then have later: "timers_tracked t" unfolding assms(3) by (rule iterate_tracked)
  from gone have none: "pending Reconnect_rtsp_source (fire i s) = []"
    and which: "i = reconnect_timeout_id s" "n = 5" by blast+
  have "i \<notin> fst ` set (sources (fire i s))"
    by (auto simp: fired g_source_destroy_frame)
  moreover have "calls (fire i s)
      = calls s @ [SetState (rtsp_src s) GST_STATE_NULL, SetState (rtsp_src s) GST_STATE_PLAYING]"
    by (simp add: fired g_source_destroy_frame reconnect_rtsp_source_effect)
  moreover from built have "rtsp_src s \<noteq> None" by simp
  moreover note none which not_lost_no_timer [OF later, of ev] source_lost_dispatch [OF later, of ev]
  ultimately show ?thesis by blast
qed

theorem reconnect_timer_fires_once_witness:
  "session [BusMessage (MsgError 2)]
     = iterate [BusMessage (MsgError 2)] (started ''rtsp://camera:554/stream'' ''/tmp/dash-output'')
   \<and> (2, Timeout 5 Reconnect_rtsp_source) \<in> set (sources (session [BusMessage (MsgError 2)]))
   \<and> fire 2 (session [BusMessage (MsgError 2)])
       = iterate [] (fire 2 (session [BusMessage (MsgError 2)]))
   \<and> pending Reconnect_rtsp_source (fire 2 (session [BusMessage (MsgError 2)])) = []
   \<and> \<not> source_lost (fire 2 (session [BusMessage (MsgError 2)])) Signal
   \<and> pending Reconnect_rtsp_source (dispatch Signal (fire 2 (session [BusMessage (MsgError 2)])))
       = []
   \<and> source_lost (fire 2 (session [BusMessage (MsgError 2)])) (BusMessage (MsgError 2))
   \<and> pending Reconnect_rtsp_source
         (dispatch (BusMessage (MsgError 2)) (fire 2 (session [BusMessage (MsgError 2)])))
       = [(next_source (fire 2 (session [BusMessage (MsgError 2)])),
           Timeout 5 Reconnect_rtsp_source)]"
proof -
  have trace: "session [BusMessage (MsgError 2)]
     = iterate [BusMessage (MsgError 2)] (started ''rtsp://camera:554/stream'' ''/tmp/dash-output'')"
    by (simp only: session_def)
  have timer: "(2, Timeout 5 Reconnect_rtsp_source) \<in> set (sources (session [BusMessage (MsgError 2)]))"
    using error_scenario by simp
  have later: "fire 2 (session [BusMessage (MsgError 2)])
       = iterate [] (fire 2 (session [BusMessage (MsgError 2)]))"
    by simp
  have "rtsp_src (fire 2 (session [BusMessage (MsgError 2)])) = Some 2"
    using fire_keeps_setup [of "session [BusMessage (MsgError 2)]" 2] error_scenario
    by (simp add: keeps_setup_def)
  then have lost: "source_lost (fire 2 (session [BusMessage (MsgError 2)])) (BusMessage (MsgError 2))"
    and kept: "\<not> source_lost (fire 2 (session [BusMessage (MsgError 2)])) Signal"
    by (simp_all add: source_lost_def)
  from trace timer later lost kept
    reconnect_timer_fires_once [OF trace timer later, of Signal]
    reconnect_timer_fires_once [OF trace timer later, of "BusMessage (MsgError 2)"]
  show ?thesis by blast
qed

section \<open>Errors on the bus\<close>

lemma switch_to_dummy_source_active:
  assumes "input_selector s \<noteq> None" "dummy_pad s \<noteq> None"
  shows "active_pad (switch_to_dummy_source s) = dummy_pad s"
  using assms
  by (auto simp: switch_to_dummy_source_def active_pad_def dummy_pad_def g_object_get_data_def
        g_object_set_def)

lemma active_pad_same:
  "input_selector s' = input_selector s \<Longrightarrow> props s' = props s \<Longrightarrow> active_pad s' = active_pad s"
  by (simp add: active_pad_def cong: option.case_cong)

text \<open>
  C1, as the code has it. In every state a session reaches, an error message whose source
  is the live source element itself makes the fallback pad the active pad, leaves exactly
  one reconnect timer pending and does not stop the loop; an error message from any other
  element, the elements of the decode chain included, stops the main loop, leaves the
  active pad as it is and schedules nothing.
\<close>

theorem error_attribution:
  assumes "s = iterate evs (started uri output)"
  shows "(Some src = rtsp_src s
          \<longrightarrow> dummy_pad s \<noteq> None
              \<and> active_pad (dispatch (BusMessage (MsgError src)) s) = dummy_pad s
              \<and> pending Reconnect_rtsp_source (dispatch (BusMessage (MsgError src)) s)
                  = [(next_source s, Timeout 5 Reconnect_rtsp_source)]
              \<and> loop_is_running (dispatch (BusMessage (MsgError src)) s) = loop_is_running s)
         \<and> (Some src \<noteq> rtsp_src s
          \<longrightarrow> \<not> loop_is_running (dispatch (BusMessage (MsgError src)) s)
              \<and> active_pad (dispatch (BusMessage (MsgError src)) s) = active_pad s
              \<and> sources (dispatch (BusMessage (MsgError src)) s) = sources s)"
proof (cases "Some src = rtsp_src s")
  case True
  note built = reachable_setup [OF assms]
  then have tracked: "timers_tracked s" and stored: "dummy_pad s \<noteq> None"
    by simp_all
  from tracked have watch: "map_of (sources s) (bus_watch_id s) = Some BusWatch"
    by (simp add: timers_tracked_def)
  from True watch have recover: "dispatch (BusMessage (MsgError src)) s
      = schedule_rtsp_reconnect (switch_to_dummy_source s)"
    by (simp add: dispatch_def handle_bus_message_def)
  have "active_pad (schedule_rtsp_reconnect (switch_to_dummy_source s))
      = active_pad (switch_to_dummy_source s)"
    by (rule active_pad_same) (simp_all add: schedule_rtsp_reconnect_effect)
  also from built have "\<dots> = dummy_pad s"
    by (simp add: switch_to_dummy_source_active)
  finally have active: "active_pad (dispatch (BusMessage (MsgError src)) s) = dummy_pad s"
    by (simp only: recover)
  from True have "source_lost s (BusMessage (MsgError src))"
    by (simp add: source_lost_def)
  from source_lost_dispatch [OF tracked this] active stored True show ?thesis
    by blast
next
  case False
  note built = reachable_setup [OF assms]
  then have "timers_tracked s" by simp
  then have watch: "map_of (sources s) (bus_watch_id s) = Some BusWatch"
    by (simp add: timers_tracked_def)
  from False watch have fatal: "dispatch (BusMessage (MsgError src)) s = stop s"
    by (simp add: dispatch_def handle_bus_message_def)
  have "active_pad (stop s) = active_pad s"
    by (rule active_pad_same) (simp_all add: stop_frame)
  moreover from built have "\<not> loop_is_running (stop s)" by (simp add: stop_frame)
  moreover have "sources (stop s) = sources s" by (simp add: stop_frame)
  ultimately show ?thesis using False by (simp only: fatal) blast
qed

theorem error_attribution_witness:
  "session [live_pad_added, TimerFire 2]
     = iterate [live_pad_added, TimerFire 2]
         (started ''rtsp://camera:554/stream'' ''/tmp/dash-output'')
   \<and> Some 2 = rtsp_src (session [live_pad_added, TimerFire 2])
   \<and> active_pad (dispatch (BusMessage (MsgError 2)) (session [live_pad_added, TimerFire 2]))
       = dummy_pad (session [live_pad_added, TimerFire 2])
   \<and> Some 24 \<noteq> rtsp_src (session [live_pad_added, TimerFire 2])
   \<and> \<not> loop_is_running (dispatch (BusMessage (MsgError 24)) (session [live_pad_added, TimerFire 2]))"
proof -
  have trace: "session [live_pad_added, TimerFire 2]
     = iterate [live_pad_added, TimerFire 2]
         (started ''rtsp://camera:554/stream'' ''/tmp/dash-output'')"
    by (simp only: session_def)
  have src: "rtsp_src (session [live_pad_added, TimerFire 2]) = Some 2"
    using reachable_setup [OF trace] by simp
  from trace src error_attribution [OF trace, of 2] error_attribution [OF trace, of 24]
  show ?thesis by simp
qed


lemma iterate_snoc:
  "iterate (evs @ [ev]) s
     = (if loop_is_running (iterate evs s) then dispatch ev (iterate evs s) else iterate evs s)"
  by (induction evs arbitrary: s) simp_all

lemma foreign_error_stops:
  assumes "s = iterate evs (started uri output)" "Some src \<noteq> rtsp_src s"
  shows "dispatch (BusMessage (MsgError src)) s = stop s"
proof -
  from reachable_setup [OF assms(1)] have "timers_tracked s" by simp
  then have "map_of (sources s) (bus_watch_id s) = Some BusWatch"
    by (simp add: timers_tracked_def)
  with assms(2) show ?thesis
    by (simp add: dispatch_def handle_bus_message_def)
qed

text \<open>
  C1 does not hold as stated: element 24 is the depayloader that
  \<open>create_rtsp_decode_chain\<close> created for the live source; its error, arriving while the
  live pad is active, stops the main loop, schedules no reconnect and leaves the live pad
  active.
\<close>

theorem decode_chain_error_is_fatal:
  "FactoryMake ''rtph264depay'' (Some ''rtsp-depay'') (Some 24)
     \<in> set (calls (session [live_pad_added, TimerFire 2]))
   \<and> loop_is_running (session [live_pad_added, TimerFire 2])
   \<and> \<not> loop_is_running (session [live_pad_added, TimerFire 2, BusMessage (MsgError 24)])
   \<and> pending Reconnect_rtsp_source
        (session [live_pad_added, TimerFire 2, BusMessage (MsgError 24)]) = []
   \<and> active_pad (session [live_pad_added, TimerFire 2, BusMessage (MsgError 24)])
       = Some (RequestPad 4 ''sink_%u'' 3)
   \<and> dummy_pad (session [live_pad_added, TimerFire 2, BusMessage (MsgError 24)])
       = Some (RequestPad 4 ''sink_%u'' 0)"
proof -
  have trace: "session [live_pad_added, TimerFire 2]
     = iterate [live_pad_added, TimerFire 2]
         (started ''rtsp://camera:554/stream'' ''/tmp/dash-output'')"
    by (simp only: session_def)
  note built = reachable_setup [OF trace]
  then have "Some 24 \<noteq> rtsp_src (session [live_pad_added, TimerFire 2])" by simp
  from foreign_error_stops [OF trace this] live_scenario
  have after: "session [live_pad_added, TimerFire 2, BusMessage (MsgError 24)]
      = stop (session [live_pad_added, TimerFire 2])"
    using iterate_snoc [of "[live_pad_added, TimerFire 2]" "BusMessage (MsgError 24)"
        "started ''rtsp://camera:554/stream'' ''/tmp/dash-output''"]
    by (simp add: session_def)
  have "active_pad (stop (session [live_pad_added, TimerFire 2]))
      = active_pad (session [live_pad_added, TimerFire 2])"
    by (rule active_pad_same) (simp_all add: stop_frame)
  moreover have "dummy_pad (stop (session [live_pad_added, TimerFire 2]))
      = dummy_pad (session [live_pad_added, TimerFire 2])"
    by (simp add: dummy_pad_def g_object_get_data_def stop_frame cong: option.case_cong)
  ultimately show ?thesis
    using live_scenario built
    by (simp add: after stop_frame pending_def is_timer_def)
qed

section \<open>The active pad while the live source is not connected\<close>

lemma create_rtsp_decode_chain_active:
  "active_pad (create_rtsp_decode_chain r pad s) = active_pad s"
  using create_rtsp_decode_chain_frame [of r pad s]
  by (simp add: active_pad_def cong: option.case_cong)

lemma dummy_pad_same:
  "input_selector s' = input_selector s \<Longrightarrow> object_data s' = object_data s
   \<Longrightarrow> dummy_pad s' = dummy_pad s"
  by (simp add: dummy_pad_def g_object_get_data_def cong: option.case_cong)

lemma handle_bus_message_active:
  assumes "input_selector s \<noteq> None" "dummy_pad s \<noteq> None"
  shows "active_pad (snd (handle_bus_message msg s)) = active_pad s
         \<or> active_pad (snd (handle_bus_message msg s)) = dummy_pad s
         \<or> source_playing s (BusMessage msg)
            \<and> is_rtsp_connected (snd (handle_bus_message msg s))"
proof -
  have a: "active_pad (schedule_rtsp_reconnect (switch_to_dummy_source x))
      = active_pad (switch_to_dummy_source x)" for x
    by (rule active_pad_same) (simp_all add: schedule_rtsp_reconnect_effect)
  have b: "active_pad (switch_to_dummy_source (s\<lparr>is_rtsp_connected := c\<rparr>)) = dummy_pad s" for c
  proof -
    have "dummy_pad (s\<lparr>is_rtsp_connected := c\<rparr>) = dummy_pad s"
      by (rule dummy_pad_same) simp_all
    with assms switch_to_dummy_source_active [of "s\<lparr>is_rtsp_connected := c\<rparr>"]
    show ?thesis by simp
  qed
  have c: "active_pad (switch_to_dummy_source s) = dummy_pad s"
    using assms by (rule switch_to_dummy_source_active)
  have d: "active_pad (stop s) = active_pad s"
    by (rule active_pad_same) (simp_all add: stop_frame)
  show ?thesis
    by (cases msg)
      (simp_all add: handle_bus_message_def a b c d source_playing_def switch_frame)
qed

lemma dispatch_active:
  assumes "input_selector s \<noteq> None" "dummy_pad s \<noteq> None"
    "\<not> fires_switch s ev" "\<not> source_playing s ev"
  shows "active_pad (dispatch ev s) = active_pad s \<or> active_pad (dispatch ev s) = dummy_pad s"
proof (cases ev)
  case (BusMessage msg)
  with assms handle_bus_message_active [OF assms(1,2), of msg] show ?thesis
    by (auto simp: dispatch_def case_prod_unfold)
next
  case (PadAdded r pad current_caps query_caps)
  with connect_rtsp_pad_cases [of r pad current_caps query_caps s] show ?thesis
    by (auto simp: dispatch_def create_rtsp_decode_chain_active)
next
  case (TimerFire i)
  have "active_pad (g_source_destroy i (snd (reconnect_rtsp_source s))) = active_pad s"
    by (rule active_pad_same) (simp_all add: g_source_destroy_frame reconnect_rtsp_source_effect)
  with TimerFire assms(3) fire_cases [of i s] show ?thesis
    by (auto simp: dispatch_def fires_switch_def)
next
  case Signal
  have "active_pad (stop s) = active_pad s"
    by (rule active_pad_same) (simp_all add: stop_frame)
  with Signal show ?thesis by (simp add: dispatch_def)
qed



lemma fires_switch_fire:
  assumes "fires_switch s (TimerFire i)"
  shows "fire i s = g_source_destroy i (switch_to_rtsp_source s)"
  using assms
  by (auto simp: fires_switch_def fire_def switch_to_rtsp_delayed_def
      split: option.splits source.splits callback.splits)









section \<open>Switching to the live source\<close>

lemma switch_to_rtsp_source_active:
  assumes "input_selector s \<noteq> None"
  shows "active_pad (switch_to_rtsp_source s)
           = (case rtsp_pad s of None \<Rightarrow> active_pad s | Some p \<Rightarrow> Some p)"
  using assms
  by (auto simp: switch_to_rtsp_source_def active_pad_def rtsp_pad_def g_object_get_data_def
        g_object_set_def split: option.splits)

lemma rtsp_pad_same:
  "input_selector s' = input_selector s \<Longrightarrow> object_data s' = object_data s
   \<Longrightarrow> rtsp_pad s' = rtsp_pad s"
  by (simp add: rtsp_pad_def g_object_get_data_def cong: option.case_cong)

lemma fires_switch_active:
  assumes "input_selector s \<noteq> None" "fires_switch s ev"
  shows "active_pad (dispatch ev s)
           = (case rtsp_pad s of None \<Rightarrow> active_pad s | Some p \<Rightarrow> Some p)"
proof (cases ev)
  case (TimerFire i)
  have "active_pad (g_source_destroy i (switch_to_rtsp_source s))
      = active_pad (switch_to_rtsp_source s)"
    by (rule active_pad_same) (simp_all add: g_source_destroy_frame)
  with TimerFire assms fires_switch_fire [of s i] switch_to_rtsp_source_active [of s]
  show ?thesis by (simp add: dispatch_def)
qed (use assms in \<open>simp_all add: fires_switch_def\<close>)

lemma source_playing_active:
  assumes "input_selector s \<noteq> None" "map_of (sources s) (bus_watch_id s) = Some BusWatch"
    "source_playing s ev"
  shows "active_pad (dispatch ev s)
           = (case rtsp_pad s of None \<Rightarrow> active_pad s | Some p \<Rightarrow> Some p)"
proof -
  have pad: "rtsp_pad (s\<lparr>is_rtsp_connected := True\<rparr>) = rtsp_pad s"
    by (rule rtsp_pad_same) simp_all
  have act: "active_pad (s\<lparr>is_rtsp_connected := True\<rparr>) = active_pad s"
    by (rule active_pad_same) simp_all
  from assms(1) switch_to_rtsp_source_active [of "s\<lparr>is_rtsp_connected := True\<rparr>"] pad act
  have "active_pad (switch_to_rtsp_source (s\<lparr>is_rtsp_connected := True\<rparr>))
      = (case rtsp_pad s of None \<Rightarrow> active_pad s | Some p \<Rightarrow> Some p)"
    by (simp cong: option.case_cong)
  with assms(2,3) show ?thesis
    by (auto simp: source_playing_def dispatch_def handle_bus_message_def
        split: event.splits message.splits)
qed

text \<open>
  C7, as the code has it. In every state a session reaches: building the decode chain
  never changes the active pad; it schedules the delayed switch, a timer of 1 second,
  exactly when the chain was created and linked and the wait for its state change
  reported success; the timer is removed when it fires; the firing of such a timer, and
  just as well the live source reporting the playing state, makes the pad stored for the
  live branch the active pad, and leaves the active pad as it is when no pad is stored;
  and any other event leaves the active pad as it is or makes the fallback pad active.
\<close>

theorem switch_to_live_paths:
  assumes "s = iterate evs (started uri output)"
  shows "active_pad (create_rtsp_decode_chain r pad s) = active_pad s
         \<and> pending Switch_to_rtsp_delayed (create_rtsp_decode_chain r pad s)
             = pending Switch_to_rtsp_delayed s
               @ (if chain_ready r then [(next_source s, Timeout 1 Switch_to_rtsp_delayed)]
                  else [])
         \<and> (fires_switch s (TimerFire i)
              \<longrightarrow> i \<notin> fst ` set (sources (dispatch (TimerFire i) s)))
         \<and> (fires_switch s ev \<or> source_playing s ev
              \<longrightarrow> active_pad (dispatch ev s)
                    = (case rtsp_pad s of None \<Rightarrow> active_pad s | Some p \<Rightarrow> Some p))
         \<and> (\<not> fires_switch s ev \<and> \<not> source_playing s ev
              \<longrightarrow> active_pad (dispatch ev s) = active_pad s
                  \<or> active_pad (dispatch ev s) = dummy_pad s)"
proof -
  note built = reachable_setup [OF assms]
  from built have "timers_tracked s" by simp
  then have watch: "map_of (sources s) (bus_watch_id s) = Some BusWatch"
    by (simp add: timers_tracked_def)
  have "pending Switch_to_rtsp_delayed (create_rtsp_decode_chain r pad s)
      = pending Switch_to_rtsp_delayed s
        @ (if chain_ready r then [(next_source s, Timeout 1 Switch_to_rtsp_delayed)] else [])"
    using create_rtsp_decode_chain_frame [of r pad s undefined]
    by (simp add: pending_def is_timer_def)
  moreover have "i \<notin> fst ` set (sources (dispatch (TimerFire i) s))"
    if "fires_switch s (TimerFire i)"
    using fires_switch_fire [OF that]
    by (auto simp: dispatch_def g_source_destroy_frame)
  moreover have "active_pad (dispatch ev s)
      = (case rtsp_pad s of None \<Rightarrow> active_pad s | Some p \<Rightarrow> Some p)"
    if "fires_switch s ev \<or> source_playing s ev"
    using built watch that fires_switch_active [of s ev] source_playing_active [of s ev]
    by auto
  moreover have "active_pad (dispatch ev s) = active_pad s
      \<or> active_pad (dispatch ev s) = dummy_pad s"
    if "\<not> fires_switch s ev" "\<not> source_playing s ev"
    using built that dispatch_active [of s ev] by simp
  ultimately show ?thesis
    using create_rtsp_decode_chain_active [of r pad s] by blast
qed

lemma chain_scenario_eval:
  "(let s = session [live_pad_added]
    in (sources s, next_source s, rtsp_pad s, active_pad s))
   = ([(1, BusWatch), (2, Timeout 1 Switch_to_rtsp_delayed)], 3,
      Some (RequestPad 4 ''sink_%u'' 3), Some (RequestPad 4 ''sink_%u'' 0))"
  by (simp add: scenario rtsp_pad_def active_pad_def del: One_nat_def cong: let_weak_cong)

lemma chain_scenario:
  "sources (session [live_pad_added]) = [(1, BusWatch), (2, Timeout 1 Switch_to_rtsp_delayed)]
   \<and> next_source (session [live_pad_added]) = 3
   \<and> rtsp_pad (session [live_pad_added]) = Some (RequestPad 4 ''sink_%u'' 3)
   \<and> active_pad (session [live_pad_added]) = Some (RequestPad 4 ''sink_%u'' 0)"
  using chain_scenario_eval by (simp add: Let_def)

theorem switch_to_live_paths_witness:
  "session [live_pad_added]
     = iterate [live_pad_added] (started ''rtsp://camera:554/stream'' ''/tmp/dash-output'')
   \<and> session []
     = iterate [] (started ''rtsp://camera:554/stream'' ''/tmp/dash-output'')
   \<and> fires_switch (session [live_pad_added]) (TimerFire 2)
   \<and> 2 \<notin> fst ` set (sources (dispatch (TimerFire 2) (session [live_pad_added])))
   \<and> active_pad (session [live_pad_added]) = Some (RequestPad 4 ''sink_%u'' 0)
   \<and> active_pad (dispatch (TimerFire 2) (session [live_pad_added]))
       = Some (RequestPad 4 ''sink_%u'' 3)
   \<and> source_playing (session [live_pad_added])
       (BusMessage (MsgStateChanged 2 GST_STATE_PAUSED GST_STATE_PLAYING))
   \<and> active_pad (dispatch (BusMessage (MsgStateChanged 2 GST_STATE_PAUSED GST_STATE_PLAYING))
                   (session [live_pad_added]))
       = Some (RequestPad 4 ''sink_%u'' 3)
   \<and> source_playing (session [])
       (BusMessage (MsgStateChanged 2 GST_STATE_PAUSED GST_STATE_PLAYING))
   \<and> active_pad (dispatch (BusMessage (MsgStateChanged 2 GST_STATE_PAUSED GST_STATE_PLAYING))
                   (session []))
       = Some (RequestPad 4 ''sink_%u'' 0)
   \<and> \<not> fires_switch (session [live_pad_added]) Signal
   \<and> \<not> source_playing (session [live_pad_added]) Signal
   \<and> (active_pad (dispatch Signal (session [live_pad_added]))
         = active_pad (session [live_pad_added])
        \<or> active_pad (dispatch Signal (session [live_pad_added]))
         = dummy_pad (session [live_pad_added]))"
proof -
  have trace: "session [live_pad_added]
     = iterate [live_pad_added] (started ''rtsp://camera:554/stream'' ''/tmp/dash-output'')"
    by (simp only: session_def)
  have first: "session []
     = iterate [] (started ''rtsp://camera:554/stream'' ''/tmp/dash-output'')"
    by (simp only: session_def)
  note built = reachable_setup [OF trace]
  note start = started_facts [of "''rtsp://camera:554/stream''" "''/tmp/dash-output''"]
  have due: "fires_switch (session [live_pad_added]) (TimerFire 2)"
    using chain_scenario by (simp add: fires_switch_def)
  have playing: "source_playing (session [live_pad_added])
       (BusMessage (MsgStateChanged 2 GST_STATE_PAUSED GST_STATE_PLAYING))"
    using built by (simp add: source_playing_def)
  have early: "source_playing (session [])
       (BusMessage (MsgStateChanged 2 GST_STATE_PAUSED GST_STATE_PLAYING))"
    using start by (simp add: source_playing_def session_def)
  have none: "rtsp_pad (session []) = None"
    "active_pad (session []) = Some (RequestPad 4 ''sink_%u'' 0)"
    using start by (simp_all add: session_def)
  have other: "\<not> fires_switch (session [live_pad_added]) Signal"
    "\<not> source_playing (session [live_pad_added]) Signal"
    by (simp_all add: fires_switch_def source_playing_def)
  from trace first due playing early other chain_scenario none
    switch_to_live_paths [OF trace, of chain_all_ok "StreamPad 2 0" 2 "TimerFire 2"]
    switch_to_live_paths [OF trace, of chain_all_ok "StreamPad 2 0" 2
      "BusMessage (MsgStateChanged 2 GST_STATE_PAUSED GST_STATE_PLAYING)"]
    switch_to_live_paths [OF first, of chain_all_ok "StreamPad 2 0" 2
      "BusMessage (MsgStateChanged 2 GST_STATE_PAUSED GST_STATE_PLAYING)"]
    switch_to_live_paths [OF trace, of chain_all_ok "StreamPad 2 0" 2 Signal]
  show ?thesis by simp
qed

lemma early_switch_eval:
  "(let s = session [live_pad_added,
                     BusMessage (MsgStateChanged 2 GST_STATE_PAUSED GST_STATE_PLAYING)]
    in (active_pad s, pending Switch_to_rtsp_delayed s))
   = (Some (RequestPad 4 ''sink_%u'' 3), [(2, Timeout 1 Switch_to_rtsp_delayed)])"
  by (simp add: scenario active_pad_def pending_def is_timer_def del: One_nat_def
        cong: let_weak_cong)

lemma unready_switch_eval:
  "(let s = session [live_pad_added_unready,
                     BusMessage (MsgStateChanged 2 GST_STATE_PAUSED GST_STATE_PLAYING)]
    in (active_pad s, pending Switch_to_rtsp_delayed s,
        GetState 28 GST_STATE_CHANGE_FAILURE \<in> set (calls s)))
   = (Some (RequestPad 4 ''sink_%u'' 3), [], True)"
  by (simp add: scenario live_pad_added_unready_def active_pad_def pending_def is_timer_def
        del: One_nat_def cong: let_weak_cong)

text \<open>
  C7 does not hold as stated: when the live source reports the playing state, the bus
  handler makes the live pad active at once. It does so while the delayed switch is
  still pending, and also when the wait for the decode chain failed and no delayed
  switch was ever scheduled.
\<close>

theorem switch_before_grace_delay:
  "active_pad (session [live_pad_added,
                        BusMessage (MsgStateChanged 2 GST_STATE_PAUSED GST_STATE_PLAYING)])
     = Some (RequestPad 4 ''sink_%u'' 3)
   \<and> pending Switch_to_rtsp_delayed
        (session [live_pad_added,
                  BusMessage (MsgStateChanged 2 GST_STATE_PAUSED GST_STATE_PLAYING)])
     = [(2, Timeout 1 Switch_to_rtsp_delayed)]
   \<and> active_pad (session [live_pad_added_unready,
                           BusMessage (MsgStateChanged 2 GST_STATE_PAUSED GST_STATE_PLAYING)])
     = Some (RequestPad 4 ''sink_%u'' 3)
   \<and> pending Switch_to_rtsp_delayed
        (session [live_pad_added_unready,
                  BusMessage (MsgStateChanged 2 GST_STATE_PAUSED GST_STATE_PLAYING)])
     = []
   \<and> GetState 28 GST_STATE_CHANGE_FAILURE
       \<in> set (calls (session [live_pad_added_unready,
                     BusMessage (MsgStateChanged 2 GST_STATE_PAUSED GST_STATE_PLAYING)]))"
  using early_switch_eval unready_switch_eval by (simp add: Let_def)

section \<open>Shutdown\<close>

lemma cleanup_done:
  "reconnect_timeout_id (cleanup s) = 0 \<and> bus_watch_id (cleanup s) = 0
   \<and> pipeline (cleanup s) = None \<and> \<not> bus (cleanup s) \<and> \<not> loop (cleanup s)"
  by (simp add: cleanup_def Let_def g_source_remove_def gst_element_set_state_def
        record_call_def split: option.splits)

lemma cleanup_idle:
  assumes "reconnect_timeout_id s = 0" "bus_watch_id s = 0" "pipeline s = None" "\<not> bus s"
    "\<not> loop s"
  shows "cleanup s = s"
  using assms by (simp add: cleanup_def)

lemma cleanup_twice: "cleanup (cleanup s) = cleanup s"
  using cleanup_done [of s] by (intro cleanup_idle) simp_all

lemma cleanup_running:
  assumes "pipeline s = Some p" "bus s" "loop s" "0 < bus_watch_id s"
  shows "sources (cleanup s)
           = filter (\<lambda>(j, _). j \<noteq> bus_watch_id s)
               (if 0 < reconnect_timeout_id s
                then filter (\<lambda>(j, _). j \<noteq> reconnect_timeout_id s) (sources s)
                else sources s)
         \<and> calls (cleanup s)
           = calls s
             @ (if 0 < reconnect_timeout_id s then [SourceRemove (reconnect_timeout_id s)] else [])
             @ [SourceRemove (bus_watch_id s), SetState (Some p) GST_STATE_NULL, ObjectUnref p,
                BusUnref, MainLoopUnref]"
  using assms
  by (simp add: cleanup_def Let_def g_source_remove_def gst_element_set_state_def
        record_call_def)

lemma stop_stops:
  "loop s \<Longrightarrow> \<not> loop_is_running (stop s) \<and> \<not> loop_is_running (stop (stop s))"
  by (simp add: stop_frame)

lemma iterate_stopped: "\<not> loop_is_running s \<Longrightarrow> iterate evs s = s"
  by (cases evs) simp_all

text \<open>
  C8, as the code has it. In every state a session reaches: \<open>stop\<close> ends the main loop, a
  second \<open>stop\<close> leaves it ended, and the loop dispatches nothing after it; \<open>cleanup\<close>
  run twice gives the state of \<open>cleanup\<close> run once; and \<open>cleanup\<close> removes the pending
  reconnect timer and the bus watch before it sets the pipeline to the null state and
  releases the pipeline, the bus and the loop.
\<close>

theorem shutdown_idempotent:
  assumes "s = iterate evs (started uri output)"
  shows "\<not> loop_is_running (stop s) \<and> \<not> loop_is_running (stop (stop s))
         \<and> iterate evs' (stop s) = stop s
         \<and> cleanup (cleanup s) = cleanup s
         \<and> pending Reconnect_rtsp_source (cleanup s) = []
         \<and> bus_watch_id s \<notin> fst ` set (sources (cleanup s))
         \<and> calls (cleanup s)
             = calls s
               @ (if 0 < reconnect_timeout_id s then [SourceRemove (reconnect_timeout_id s)]
                  else [])
               @ [SourceRemove (bus_watch_id s), SetState (pipeline s) GST_STATE_NULL,
                  ObjectUnref 1, BusUnref, MainLoopUnref]"
proof -
  note built = reachable_setup [OF assms]
  then have tracked: "timers_tracked s" by simp
  from built have run: "pipeline s = Some 1" "bus s" "loop s" "0 < bus_watch_id s"
    by simp_all
  note effect = cleanup_running [OF run]
  have none: "pending Reconnect_rtsp_source (cleanup s) = []"
  proof (cases "0 < reconnect_timeout_id s")
    case True
    with tracked have "filter (is_timer Reconnect_rtsp_source) (sources s)
        = [(reconnect_timeout_id s, Timeout 5 Reconnect_rtsp_source)]"
      by (simp add: timers_tracked_def pending_def)
    from timers_removed [OF this] True effect show ?thesis
      by (auto simp: pending_def filter_filter filter_empty_conv)
  next
    case False
    with tracked have "filter (is_timer Reconnect_rtsp_source) (sources s) = []"
      by (simp add: timers_tracked_def pending_def)
    with False effect show ?thesis
      by (auto simp: pending_def filter_filter filter_empty_conv)
  qed
  have gone: "bus_watch_id s \<notin> fst ` set (sources (cleanup s))"
    using effect by auto
  from run stop_stops [of s] have stopped: "\<not> loop_is_running (stop s)"
    "\<not> loop_is_running (stop (stop s))" by simp_all
  from stopped(1) have "iterate evs' (stop s) = stop s" by (rule iterate_stopped)
  with stopped none gone effect run cleanup_twice [of s] show ?thesis by simp
qed

theorem shutdown_idempotent_witness:
  "session [BusMessage (MsgError 2), Signal]
     = iterate [BusMessage (MsgError 2), Signal]
         (started ''rtsp://camera:554/stream'' ''/tmp/dash-output'')
   \<and> cleanup (cleanup (session [BusMessage (MsgError 2), Signal]))
       = cleanup (session [BusMessage (MsgError 2), Signal])
   \<and> pending Reconnect_rtsp_source (cleanup (session [BusMessage (MsgError 2), Signal])) = []"
proof -
  have trace: "session [BusMessage (MsgError 2), Signal]
     = iterate [BusMessage (MsgError 2), Signal]
         (started ''rtsp://camera:554/stream'' ''/tmp/dash-output'')"
    by (simp only: session_def)
  from trace shutdown_idempotent [OF trace] show ?thesis by blast
qed

lemma cleanup_scenario_eval:
  "(let s = session [live_pad_added, Signal]
    in (loop_is_running s, pending Switch_to_rtsp_delayed s,
        pending Switch_to_rtsp_delayed (cleanup s), pipeline (cleanup s)))
   = (False, [(2, Timeout 1 Switch_to_rtsp_delayed)], [(2, Timeout 1 Switch_to_rtsp_delayed)],
      None)"
  by (simp add: scenario pending_def is_timer_def del: One_nat_def cong: let_weak_cong)

text \<open>
  C8 does not hold as stated: the delayed switch scheduled by
  \<open>create_rtsp_decode_chain\<close> is still pending after the loop was stopped and \<open>cleanup\<close>
  released the pipeline.
\<close>

theorem cleanup_keeps_grace_timer:
  "\<not> loop_is_running (session [live_pad_added, Signal])
   \<and> pending Switch_to_rtsp_delayed (session [live_pad_added, Signal])
       = [(2, Timeout 1 Switch_to_rtsp_delayed)]
   \<and> pending Switch_to_rtsp_delayed (cleanup (session [live_pad_added, Signal]))
       = [(2, Timeout 1 Switch_to_rtsp_delayed)]
   \<and> pipeline (cleanup (session [live_pad_added, Signal])) = None"
  using cleanup_scenario_eval by (simp add: Let_def)

section \<open>Building the graph\<close>

lemma create_dash_pipeline_result:
  "prefix (calls s @ [FactoryMake ''queue'' (Some (''queue-'' @ quality))
                       (if queue_ok r then Some (next_elem s) else None)])
     (calls (snd (create_dash_pipeline r quality width height bitrate s)))
   \<and> filter is_start_call (calls (snd (create_dash_pipeline r quality width height bitrate s)))
       = filter is_start_call (calls s)
   \<and> (fst (create_dash_pipeline r quality width height bitrate s) \<longrightarrow> dash_ok r)"
proof (cases s)
  case (fields pl rs ds sel t fh hq b l bw rt uri out conn lk ne np pr od srcs ns run cs)
  consider "\<not> queue_ok r"
    | "queue_ok r" "\<not> videoconvert_ok r"
    | "queue_ok r" "videoconvert_ok r" "\<not> videoscale_ok r"
    | "queue_ok r" "videoconvert_ok r" "videoscale_ok r" "\<not> videorate_ok r"
    | "queue_ok r" "videoconvert_ok r" "videoscale_ok r" "videorate_ok r" "\<not> capsfilter_ok r"
    | "queue_ok r" "videoconvert_ok r" "videoscale_ok r" "videorate_ok r" "capsfilter_ok r" "\<not> encoder_ok r"
    | "queue_ok r" "videoconvert_ok r" "videoscale_ok r" "videorate_ok r" "capsfilter_ok r" "encoder_ok r" "\<not> h264parse_ok r"
    | "queue_ok r" "videoconvert_ok r" "videoscale_ok r" "videorate_ok r" "capsfilter_ok r" "encoder_ok r" "h264parse_ok r" "\<not> dash_sink_ok r"
    | "queue_ok r" "videoconvert_ok r" "videoscale_ok r" "videorate_ok r" "capsfilter_ok r" "encoder_ok r" "h264parse_ok r" "dash_sink_ok r" "\<not> dash_chain_link_ok r"
    | "queue_ok r" "videoconvert_ok r" "videoscale_ok r" "videorate_ok r" "capsfilter_ok r" "encoder_ok r" "h264parse_ok r" "dash_sink_ok r" "dash_chain_link_ok r" "\<not> tee_pad_ok r"
    | "queue_ok r" "videoconvert_ok r" "videoscale_ok r" "videorate_ok r" "capsfilter_ok r" "encoder_ok r" "h264parse_ok r" "dash_sink_ok r" "dash_chain_link_ok r" "tee_pad_ok r" "\<not> queue_pad_ok r"
    | "queue_ok r" "videoconvert_ok r" "videoscale_ok r" "videorate_ok r" "capsfilter_ok r" "encoder_ok r" "h264parse_ok r" "dash_sink_ok r" "dash_chain_link_ok r" "tee_pad_ok r" "queue_pad_ok r"
    by blast
  then show ?thesis
  proof cases
    case 1
    then show ?thesis
      unfolding fields
      by (simp add: create_dash_pipeline_def dash_ok_def is_start_call_def exec_rules lib_defs Let_def
           split del: if_split)
  next
    case 2
    then show ?thesis
      unfolding fields
      by (simp add: create_dash_pipeline_def dash_ok_def is_start_call_def exec_rules lib_defs Let_def
           split del: if_split)
  next
    case 3
    then show ?thesis
      unfolding fields
      by (simp add: create_dash_pipeline_def dash_ok_def is_start_call_def exec_rules lib_defs Let_def
           split del: if_split)
  next
    case 4
    then show ?thesis
      unfolding fields
      by (simp add: create_dash_pipeline_def dash_ok_def is_start_call_def exec_rules lib_defs Let_def
           split del: if_split)
  next
    case 5
    then show ?thesis
      unfolding fields
      by (simp add: create_dash_pipeline_def dash_ok_def is_start_call_def exec_rules lib_defs Let_def
           split del: if_split)
  next
    case 6
    then show ?thesis
      unfolding fields
      by (simp add: create_dash_pipeline_def dash_ok_def is_start_call_def exec_rules lib_defs Let_def
           split del: if_split)
  next
    case 7
    then show ?thesis
      unfolding fields
      by (simp add: create_dash_pipeline_def dash_ok_def is_start_call_def exec_rules lib_defs Let_def
           split del: if_split)
  next
    case 8
    then show ?thesis
      unfolding fields
      by (simp add: create_dash_pipeline_def dash_ok_def is_start_call_def exec_rules lib_defs Let_def
           split del: if_split)
  next
    case 9
    then show ?thesis
      unfolding fields
      by (simp add: create_dash_pipeline_def dash_ok_def is_start_call_def exec_rules lib_defs Let_def
           split del: if_split)
  next
    case 10
    then show ?thesis
      unfolding fields
      by (cases t; simp add: create_dash_pipeline_def dash_ok_def is_start_call_def exec_rules lib_defs Let_def
           split del: if_split)
  next
    case 11
    then show ?thesis
      unfolding fields
      by (cases t; simp add: create_dash_pipeline_def dash_ok_def is_start_call_def exec_rules lib_defs Let_def
           split del: if_split)
  next
    case 12
    then show ?thesis
      unfolding fields
      by (cases t; cases "tee_queue_link_ok r"; cases "quality = ''fullhd''";
          simp add: create_dash_pipeline_def dash_ok_def is_start_call_def exec_rules lib_defs Let_def
           split del: if_split)
  qed
qed

lemma setup_bus_monitoring_calls:
  "prefix (calls s) (calls (setup_bus_monitoring s))
   \<and> filter is_start_call (calls (setup_bus_monitoring s)) = filter is_start_call (calls s)"
  by (simp add: setup_bus_monitoring_def g_source_attach_def record_call_def is_start_call_def
        Let_def split: option.splits)

lemma cleanup_calls:
  "filter is_start_call (calls (cleanup s)) = filter is_start_call (calls s)"
  by (simp add: cleanup_def g_source_remove_def record_call_def gst_element_set_state_def
        is_start_call_def Let_def split: option.splits)

lemma initialize_core_ok:
  assumes "core_ok r"
  shows "initialize r (RTSPDashStreamer uri output) = profiles_phase r (core_built uri output)"
  using assms
  by (simp add: core_ok_def dummy_ok_def RTSPDashStreamer_def initialize_def
        connect_dummy_source_def profiles_phase_def core_built_def exec_rules lib_defs Let_def
      del: One_nat_def)

lemma record_call_calls: "calls (record_call c s) = calls s @ [c]"
  by (simp add: record_call_def)

lemma profiles_phase_result:
  "prefix (calls s @ [FactoryMake ''queue'' (Some ''queue-fullhd'')
                       (if queue_ok (fullhd_res r) then Some (next_elem s) else None)])
     (calls (snd (profiles_phase r s)))
   \<and> filter is_start_call (calls (snd (profiles_phase r s))) = filter is_start_call (calls s)
   \<and> (fst (profiles_phase r s) \<longrightarrow> dash_ok (fullhd_res r) \<and> dash_ok (hd_res r))"
proof -
  define a where "a = create_dash_pipeline (fullhd_res r) ''fullhd'' 1920 1080 5000 s"
  define b where "b = create_dash_pipeline (hd_res r) ''hd'' 1280 720 3000 (snd a)"
  define c where "c = setup_bus_monitoring (snd b)"
  define d where "d = record_call (SignalConnect (rtsp_src c) ''pad-added'') c"
  define e where "e = record_call (SignalConnect (rtsp_src d) ''no-more-pads'') d"
  have phase: "profiles_phase r s
      = (if \<not> fst a then (False, snd a) else if \<not> fst b then (False, snd b) else (True, e))"
    by (simp add: profiles_phase_def a_def b_def c_def d_def e_def case_prod_unfold Let_def)
  from create_dash_pipeline_result
         [where s = s and r = "fullhd_res r" and quality = "''fullhd''" and width = 1920
            and height = 1080 and bitrate = 5000]
  have a1: "prefix (calls s @ [FactoryMake ''queue'' (Some ''queue-fullhd'')
                       (if queue_ok (fullhd_res r) then Some (next_elem s) else None)])
               (calls (snd a))"
    and a2: "filter is_start_call (calls (snd a)) = filter is_start_call (calls s)"
    and a3: "fst a \<longrightarrow> dash_ok (fullhd_res r)"
    by (simp_all add: a_def)
  from create_dash_pipeline_result
         [where s = "snd a" and r = "hd_res r" and quality = "''hd''" and width = 1280
            and height = 720 and bitrate = 3000]
  have b1: "prefix (calls (snd a)) (calls (snd b))"
    and b2: "filter is_start_call (calls (snd b)) = filter is_start_call (calls (snd a))"
    and b3: "fst b \<longrightarrow> dash_ok (hd_res r)"
    by (auto simp: b_def dest: append_prefixD)
  from setup_bus_monitoring_calls [of "snd b"]
  have e1: "prefix (calls (snd b)) (calls e)"
    and e2: "filter is_start_call (calls e) = filter is_start_call (calls (snd b))"
    by (auto simp: c_def d_def e_def record_call_calls is_start_call_def
          intro: prefix_order.trans)
  from a1 b1 e1 have "prefix (calls s @ [FactoryMake ''queue'' (Some ''queue-fullhd'')
                       (if queue_ok (fullhd_res r) then Some (next_elem s) else None)])
               (calls (snd (profiles_phase r s)))"
    unfolding phase by (auto intro: prefix_order.trans)
  moreover from a2 b2 e2
  have "filter is_start_call (calls (snd (profiles_phase r s))) = filter is_start_call (calls s)"
    unfolding phase by auto
  moreover from a3 b3
  have "fst (profiles_phase r s) \<longrightarrow> dash_ok (fullhd_res r) \<and> dash_ok (hd_res r)"
    unfolding phase by auto
  ultimately show ?thesis by blast
qed

lemma initialize_core_failed:
  assumes "\<not> core_ok r"
  shows "\<not> fst (initialize r (RTSPDashStreamer uri output))
         \<and> \<not> list_ex is_profile_make (calls (snd (initialize r (RTSPDashStreamer uri output))))
         \<and> filter is_start_call (calls (snd (initialize r (RTSPDashStreamer uri output)))) = []"
proof -
  from assms consider "\<not> pipeline_ok r"
    | "pipeline_ok r" "\<not> rtsp_src_ok r"
    | "pipeline_ok r" "rtsp_src_ok r" "\<not> dummy_src_ok r"
    | "pipeline_ok r" "rtsp_src_ok r" "dummy_src_ok r" "\<not> input_selector_ok r"
    | "pipeline_ok r" "rtsp_src_ok r" "dummy_src_ok r" "input_selector_ok r" "\<not> tee_ok r"
    | "pipeline_ok r" "rtsp_src_ok r" "dummy_src_ok r" "input_selector_ok r" "tee_ok r" "\<not> dummy_convert_ok (dummy_res r)"
    | "pipeline_ok r" "rtsp_src_ok r" "dummy_src_ok r" "input_selector_ok r" "tee_ok r" "dummy_convert_ok (dummy_res r)" "\<not> dummy_caps_ok (dummy_res r)"
    | "pipeline_ok r" "rtsp_src_ok r" "dummy_src_ok r" "input_selector_ok r" "tee_ok r" "dummy_convert_ok (dummy_res r)" "dummy_caps_ok (dummy_res r)" "\<not> dummy_chain_link_ok (dummy_res r)"
    | "pipeline_ok r" "rtsp_src_ok r" "dummy_src_ok r" "input_selector_ok r" "tee_ok r" "dummy_convert_ok (dummy_res r)" "dummy_caps_ok (dummy_res r)" "dummy_chain_link_ok (dummy_res r)" "\<not> (dummy_pad_ok (dummy_res r) \<and> dummy_selector_pad_ok (dummy_res r) \<and> dummy_selector_link_ok (dummy_res r))"
    | "pipeline_ok r" "rtsp_src_ok r" "dummy_src_ok r" "input_selector_ok r" "tee_ok r" "dummy_convert_ok (dummy_res r)" "dummy_caps_ok (dummy_res r)" "dummy_chain_link_ok (dummy_res r)" "dummy_pad_ok (dummy_res r)" "dummy_selector_pad_ok (dummy_res r)" "dummy_selector_link_ok (dummy_res r)" "\<not> selector_tee_link_ok r"
    by (auto simp: core_ok_def dummy_ok_def)
  then show ?thesis
  proof cases
    case 1
    then show ?thesis
      by (simp add: RTSPDashStreamer_def initialize_def connect_dummy_source_def exec_rules
          lib_defs Let_def is_profile_make_def is_start_call_def del: One_nat_def)
  next
    case 2
    then show ?thesis
      by (simp add: RTSPDashStreamer_def initialize_def connect_dummy_source_def exec_rules
          lib_defs Let_def is_profile_make_def is_start_call_def del: One_nat_def)
  next
    case 3
    then show ?thesis
      by (simp add: RTSPDashStreamer_def initialize_def connect_dummy_source_def exec_rules
          lib_defs Let_def is_profile_make_def is_start_call_def del: One_nat_def)
  next
    case 4
    then show ?thesis
      by (simp add: RTSPDashStreamer_def initialize_def connect_dummy_source_def exec_rules
          lib_defs Let_def is_profile_make_def is_start_call_def del: One_nat_def)
  next
    case 5
    then show ?thesis
      by (simp add: RTSPDashStreamer_def initialize_def connect_dummy_source_def exec_rules
          lib_defs Let_def is_profile_make_def is_start_call_def del: One_nat_def)
  next
    case 6
    then show ?thesis
      by (cases "dummy_caps_ok (dummy_res r)"; simp add: RTSPDashStreamer_def initialize_def connect_dummy_source_def exec_rules
          lib_defs Let_def is_profile_make_def is_start_call_def del: One_nat_def)
  next
    case 7
    then show ?thesis
      by (simp add: RTSPDashStreamer_def initialize_def connect_dummy_source_def exec_rules
          lib_defs Let_def is_profile_make_def is_start_call_def del: One_nat_def)
  next
    case 8
    then show ?thesis
      by (simp add: RTSPDashStreamer_def initialize_def connect_dummy_source_def exec_rules
          lib_defs Let_def is_profile_make_def is_start_call_def del: One_nat_def)
  next
    case 9
    then show ?thesis
      by (cases "dummy_pad_ok (dummy_res r)"; cases "dummy_selector_pad_ok (dummy_res r)";
        cases "dummy_selector_link_ok (dummy_res r)"; simp add: RTSPDashStreamer_def initialize_def connect_dummy_source_def exec_rules
          lib_defs Let_def is_profile_make_def is_start_call_def del: One_nat_def)
  next
    case 10
    then show ?thesis
      by (simp add: RTSPDashStreamer_def initialize_def connect_dummy_source_def exec_rules
          lib_defs Let_def is_profile_make_def is_start_call_def del: One_nat_def)
  qed
qed

lemma core_built_calls:
  "calls (core_built uri output)
     = [PipelineNew ''rtsp-dash-pipeline'' (Some 1),
        FactoryMake ''rtspsrc'' (Some ''rtsp-source'') (Some 2),
        FactoryMake ''videotestsrc'' (Some ''dummy-source'') (Some 3),
        FactoryMake ''input-selector'' (Some ''input-selector'') (Some 4),
        FactoryMake ''tee'' (Some ''tee'') (Some 5),
        BinAdd (Some 1) [2, 3, 4, 5],
        FactoryMake ''videoconvert'' (Some ''dummy-convert'') (Some 6),
        FactoryMake ''capsfilter'' (Some ''dummy-caps'') (Some 7),
        BinAdd (Some 1) [6, 7],
        ElementLink [3, 6, 7] True,
        GetStaticPad 7 ''src'' (Some (StaticPad 7 ''src'')),
        GetRequestPad (Some 4) ''sink_%u'' (Some (RequestPad 4 ''sink_%u'' 0)),
        PadLink (Some (StaticPad 7 ''src'')) (Some (RequestPad 4 ''sink_%u'' 0)) True,
        ElementLink [4, 5] True]"
  by (simp add: core_built_def)

lemma initialize_core_built:
  assumes "core_ok r"
  shows "(\<exists>rest. calls (snd (initialize r (RTSPDashStreamer uri output)))
            = calls (core_built uri output)
              @ FactoryMake ''queue'' (Some ''queue-fullhd'')
                  (if queue_ok (fullhd_res r) then Some 8 else None) # rest)
         \<and> filter is_start_call (calls (snd (initialize r (RTSPDashStreamer uri output)))) = []
         \<and> (fst (initialize r (RTSPDashStreamer uri output))
                \<longrightarrow> dash_ok (fullhd_res r) \<and> dash_ok (hd_res r))"
proof -
  have next_elem: "next_elem (core_built uri output) = 8"
    by (simp add: core_built_def)
  note phase = profiles_phase_result [of "core_built uri output" r, unfolded next_elem]
  from phase
  have "prefix (calls (core_built uri output) @ [FactoryMake ''queue'' (Some ''queue-fullhd'')
                       (if queue_ok (fullhd_res r) then Some 8 else None)])
          (calls (snd (profiles_phase r (core_built uri output))))"
    by (rule conjunct1)
  then obtain rest where log: "calls (snd (profiles_phase r (core_built uri output)))
      = calls (core_built uri output)
        @ FactoryMake ''queue'' (Some ''queue-fullhd'')
            (if queue_ok (fullhd_res r) then Some 8 else None) # rest"
    unfolding prefix_def by auto
  from phase
  have quiet: "filter is_start_call (calls (snd (profiles_phase r (core_built uri output))))
       = filter is_start_call (calls (core_built uri output))"
    and ok: "fst (profiles_phase r (core_built uri output))
       \<longrightarrow> dash_ok (fullhd_res r) \<and> dash_ok (hd_res r)"
    by blast+
  have "filter is_start_call (calls (core_built uri output)) = []"
    by (simp add: core_built_calls is_start_call_def)
  with log quiet ok initialize_core_ok [OF assms, of uri "output"] show ?thesis
    by auto
qed

lemma main_not_initialized:
  assumes "\<not> fst (initialize r (RTSPDashStreamer uri output))"
  shows "main (prog # uri # output # rest) r ret evs
           = (1, Some (cleanup (snd (initialize r (RTSPDashStreamer uri output)))))"
  using assms by (simp add: main_def case_prod_unfold Let_def)

text \<open>
  C5. When a call that creates or links an element of the full HD or of the HD branch
  fails, \<open>initialize\<close> returns false, \<open>main\<close> exits with status 1 without calling
  \<open>start\<close>, and the log of the run holds no call that starts streaming. An element of a
  profile branch is created exactly when every call that builds the sources, the
  fallback branch, the selector and the tee succeeded; and then the log up to the first
  such creation is the creation of these elements, the links of the fallback branch to
  the selector and the link of the selector to the tee, all of them successful.
\<close>

theorem profile_failure_fails_build:
  "(\<not> dash_ok (fullhd_res r) \<or> \<not> dash_ok (hd_res r)
      \<longrightarrow> \<not> fst (initialize r (RTSPDashStreamer uri output))
          \<and> main (prog # uri # output # rest) r ret evs = (1, Some (cleanup (snd (initialize r (RTSPDashStreamer uri output)))))
          \<and> filter is_start_call (calls (cleanup (snd (initialize r (RTSPDashStreamer uri output))))) = [])
   \<and> list_ex is_profile_make (calls (snd (initialize r (RTSPDashStreamer uri output)))) = core_ok r
   \<and> (list_ex is_profile_make (calls (snd (initialize r (RTSPDashStreamer uri output))))
        \<longrightarrow> before_profiles (calls (snd (initialize r (RTSPDashStreamer uri output))))
            = [PipelineNew ''rtsp-dash-pipeline'' (Some 1),
                  FactoryMake ''rtspsrc'' (Some ''rtsp-source'') (Some 2),
                  FactoryMake ''videotestsrc'' (Some ''dummy-source'') (Some 3),
                  FactoryMake ''input-selector'' (Some ''input-selector'') (Some 4),
                  FactoryMake ''tee'' (Some ''tee'') (Some 5),
                  BinAdd (Some 1) [2, 3, 4, 5],
                  FactoryMake ''videoconvert'' (Some ''dummy-convert'') (Some 6),
                  FactoryMake ''capsfilter'' (Some ''dummy-caps'') (Some 7),
                  BinAdd (Some 1) [6, 7],
                  ElementLink [3, 6, 7] True,
                  GetStaticPad 7 ''src'' (Some (StaticPad 7 ''src'')),
                  GetRequestPad (Some 4) ''sink_%u'' (Some (RequestPad 4 ''sink_%u'' 0)),
                  PadLink (Some (StaticPad 7 ''src'')) (Some (RequestPad 4 ''sink_%u'' 0)) True,
                  ElementLink [4, 5] True])"
proof (cases "core_ok r")
  case True
  from initialize_core_built [OF True, of uri "output"]
  obtain more where log: "calls (snd (initialize r (RTSPDashStreamer uri output)))
      = calls (core_built uri output)
        @ FactoryMake ''queue'' (Some ''queue-fullhd'')
            (if queue_ok (fullhd_res r) then Some 8 else None) # more"
    and quiet: "filter is_start_call (calls (snd (initialize r (RTSPDashStreamer uri output)))) = []"
    and ok: "fst (initialize r (RTSPDashStreamer uri output)) \<longrightarrow> dash_ok (fullhd_res r) \<and> dash_ok (hd_res r)"
    by blast
  have made: "list_ex is_profile_make (calls (snd (initialize r (RTSPDashStreamer uri output))))"
    unfolding log by (simp add: is_profile_make_def)
  have first: "before_profiles (calls (snd (initialize r (RTSPDashStreamer uri output))))
      = [PipelineNew ''rtsp-dash-pipeline'' (Some 1),
                  FactoryMake ''rtspsrc'' (Some ''rtsp-source'') (Some 2),
                  FactoryMake ''videotestsrc'' (Some ''dummy-source'') (Some 3),
                  FactoryMake ''input-selector'' (Some ''input-selector'') (Some 4),
                  FactoryMake ''tee'' (Some ''tee'') (Some 5),
                  BinAdd (Some 1) [2, 3, 4, 5],
                  FactoryMake ''videoconvert'' (Some ''dummy-convert'') (Some 6),
                  FactoryMake ''capsfilter'' (Some ''dummy-caps'') (Some 7),
                  BinAdd (Some 1) [6, 7],
                  ElementLink [3, 6, 7] True,
                  GetStaticPad 7 ''src'' (Some (StaticPad 7 ''src'')),
                  GetRequestPad (Some 4) ''sink_%u'' (Some (RequestPad 4 ''sink_%u'' 0)),
                  PadLink (Some (StaticPad 7 ''src'')) (Some (RequestPad 4 ''sink_%u'' 0)) True,
                  ElementLink [4, 5] True]"
    unfolding log core_built_calls by (simp add: before_profiles_def is_profile_make_def)
  have failed: "\<not> fst (initialize r (RTSPDashStreamer uri output))
      \<and> main (prog # uri # output # rest) r ret evs = (1, Some (cleanup (snd (initialize r (RTSPDashStreamer uri output)))))
      \<and> filter is_start_call (calls (cleanup (snd (initialize r (RTSPDashStreamer uri output))))) = []"
    if "\<not> dash_ok (fullhd_res r) \<or> \<not> dash_ok (hd_res r)"
  proof -
    from that ok have "\<not> fst (initialize r (RTSPDashStreamer uri output))" by blast
    with main_not_initialized [of r uri "output" prog rest ret evs] quiet
      cleanup_calls [of "snd (initialize r (RTSPDashStreamer uri output))"]
    show ?thesis by simp
  qed
  from True made first failed show ?thesis by blast
next
  case False
  from initialize_core_failed [OF False, of uri "output"]
  have stop: "\<not> fst (initialize r (RTSPDashStreamer uri output))"
    and none: "\<not> list_ex is_profile_make (calls (snd (initialize r (RTSPDashStreamer uri output))))"
    and quiet: "filter is_start_call (calls (snd (initialize r (RTSPDashStreamer uri output)))) = []"
    by blast+
  from stop main_not_initialized [of r uri "output" prog rest ret evs] quiet
    cleanup_calls [of "snd (initialize r (RTSPDashStreamer uri output))"]
  have "main (prog # uri # output # rest) r ret evs = (1, Some (cleanup (snd (initialize r (RTSPDashStreamer uri output)))))
      \<and> filter is_start_call (calls (cleanup (snd (initialize r (RTSPDashStreamer uri output))))) = []"
    by simp
  with False stop none show ?thesis by blast
qed

lemma hd_encoder_fails_eval:
  "(let built = initialize hd_encoder_fails (RTSPDashStreamer ''rtsp://camera:554/stream'' ''/tmp/dash-output'')
    in (fst built, list_ex is_profile_make (calls (snd built)),
        dash_sink_fullhd (snd built), dash_sink_hd (snd built)))
   = (False, True, Some 15, None)"
  by (simp add: hd_encoder_fails_def run is_profile_make_def del: One_nat_def
        cong: let_weak_cong)

theorem profile_failure_fails_build_witness:
  "\<not> dash_ok (hd_res hd_encoder_fails)
   \<and> core_ok hd_encoder_fails
   \<and> \<not> fst (initialize hd_encoder_fails (RTSPDashStreamer ''rtsp://camera:554/stream'' ''/tmp/dash-output''))
   \<and> fst (main [''rtsp-dash-streamer'', ''rtsp://camera:554/stream'', ''/tmp/dash-output''] hd_encoder_fails GST_STATE_CHANGE_SUCCESS []) = 1
   \<and> filter is_start_call (calls (cleanup (snd (initialize hd_encoder_fails (RTSPDashStreamer ''rtsp://camera:554/stream'' ''/tmp/dash-output''))))) = []
   \<and> list_ex is_profile_make (calls (snd (initialize hd_encoder_fails (RTSPDashStreamer ''rtsp://camera:554/stream'' ''/tmp/dash-output''))))
   \<and> before_profiles (calls (snd (initialize hd_encoder_fails (RTSPDashStreamer ''rtsp://camera:554/stream'' ''/tmp/dash-output''))))
       = [PipelineNew ''rtsp-dash-pipeline'' (Some 1),
                  FactoryMake ''rtspsrc'' (Some ''rtsp-source'') (Some 2),
                  FactoryMake ''videotestsrc'' (Some ''dummy-source'') (Some 3),
                  FactoryMake ''input-selector'' (Some ''input-selector'') (Some 4),
                  FactoryMake ''tee'' (Some ''tee'') (Some 5),
                  BinAdd (Some 1) [2, 3, 4, 5],
                  FactoryMake ''videoconvert'' (Some ''dummy-convert'') (Some 6),
                  FactoryMake ''capsfilter'' (Some ''dummy-caps'') (Some 7),
                  BinAdd (Some 1) [6, 7],
                  ElementLink [3, 6, 7] True,
                  GetStaticPad 7 ''src'' (Some (StaticPad 7 ''src'')),
                  GetRequestPad (Some 4) ''sink_%u'' (Some (RequestPad 4 ''sink_%u'' 0)),
                  PadLink (Some (StaticPad 7 ''src'')) (Some (RequestPad 4 ''sink_%u'' 0)) True,
                  ElementLink [4, 5] True]"
proof -
  have hd: "\<not> dash_ok (hd_res hd_encoder_fails)"
    by (simp add: hd_encoder_fails_def dash_ok_def ok_defs)
  have core: "core_ok hd_encoder_fails"
    by (simp add: hd_encoder_fails_def core_ok_def dummy_ok_def ok_defs)
  from hd_encoder_fails_eval
  have made: "list_ex is_profile_make (calls (snd (initialize hd_encoder_fails (RTSPDashStreamer ''rtsp://camera:554/stream'' ''/tmp/dash-output''))))"
    by (simp add: Let_def)
  from hd core made
    profile_failure_fails_build
      [of hd_encoder_fails "''rtsp://camera:554/stream''" "''/tmp/dash-output''"
          "''rtsp-dash-streamer''" "[]" GST_STATE_CHANGE_SUCCESS "[]"]
  show ?thesis by simp
qed

section \<open>The manifest of the two profiles\<close>

text \<open>
  C9, on an engine that never fails, when the main loop starts. The two sinks are
  different elements. Each is the end of the branch of its own profile and takes part in
  no other link: the full HD branch is fed by one pad of the tee, scales to 1920x1080
  and ends in the first sink; the HD branch is fed by another pad of the tee, scales to
  1280x720 and ends in the second. Both sinks are given the same manifest name and the
  same root path.
\<close>

theorem one_manifest_name_two_sinks:
  "dash_sink_fullhd (session []) = Some 15
   \<and> dash_sink_hd (session []) = Some 23
   \<and> props (session []) (15, ''mpd-filename'') = Some (VString ''./manifest.mpd'')
   \<and> props (session []) (23, ''mpd-filename'') = Some (VString ''./manifest.mpd'')
   \<and> props (session []) (15, ''mpd-root-path'') = Some (VString ''/tmp/dash-output'')
   \<and> props (session []) (23, ''mpd-root-path'') = Some (VString ''/tmp/dash-output'')
   \<and> links_of 15 (session []) = [ElementLink [8, 9, 10, 11, 12, 13, 14, 15] True]
   \<and> links_of 23 (session []) = [ElementLink [16, 17, 18, 19, 20, 21, 22, 23] True]
   \<and> links_of 8 (session [])
       = [ElementLink [8, 9, 10, 11, 12, 13, 14, 15] True,
          PadLink (Some (RequestPad 5 ''src_%u'' 1)) (Some (StaticPad 8 ''sink'')) True]
   \<and> links_of 16 (session [])
       = [ElementLink [16, 17, 18, 19, 20, 21, 22, 23] True,
          PadLink (Some (RequestPad 5 ''src_%u'' 2)) (Some (StaticPad 16 ''sink'')) True]
   \<and> props (session []) (12, ''caps'') = Some (VCaps (video_raw_caps 1920 1080))
   \<and> props (session []) (20, ''caps'') = Some (VCaps (video_raw_caps 1280 720))"
  by (simp add: session_def started_state links_of_def video_raw_caps_def del: One_nat_def)

end
